theory Spec2Isabelle
  imports Complex_Main
begin

section \<open>Data model\<close>

text \<open>
  The simulation driver of \<^verbatim>\<open>goal-guy-0.go\<close>: the methods of \<^verbatim>\<open>Sim\<close> that form the
  trial and epoch control loop. A Go panic (an index out of range, a nil tensor) is the
  value \<open>Inl Panic\<close>; a method that mutates \<^verbatim>\<open>ss\<close> takes the state and returns the new
  one. The \<^verbatim>\<open>float32\<close> fields of \<^verbatim>\<open>Sim\<close> and the statistics that the network returns
  are modelled as reals: for them rounding, infinities and NaN are not modelled. The
  unit activations that \<^verbatim>\<open>TrialStats\<close> compares with its tolerance are \<^verbatim>\<open>float32\<close>
  values with the arithmetic of the machine, defined below. The Go \<^verbatim>\<open>int\<close> fields are
  unbounded integers.
\<close>

datatype error = Panic

definition and_then :: "error + 'a \<Rightarrow> ('a \<Rightarrow> error + 'b) \<Rightarrow> error + 'b" where
  "and_then m f = (case m of Inl e \<Rightarrow> Inl e | Inr x \<Rightarrow> f x)"

text \<open>
  A \<^verbatim>\<open>float32\<close> value is a real number, an infinity or NaN; the two zeros are not
  told apart, as no comparison tells them apart. \<open>fround x\<close> is the \<^verbatim>\<open>float32\<close> nearest
  to the real \<open>x\<close>, with ties going to the even significand: \<open>ulp a\<close> is the distance
  between neighbouring \<^verbatim>\<open>float32\<close> values at the magnitude \<open>a\<close>: the power of two
  from \<open>1 / 2 ^ 149\<close> to \<open>2 ^ 104\<close> that puts \<open>a / ulp a\<close> from \<open>2 ^ 23\<close> up to \<open>2 ^ 24\<close>
  where the range allows it (the search starts at 1 and halves or doubles). A rounded
  magnitude of \<open>2 ^ 128\<close> or more is an infinity.
\<close>

datatype float32 = Finite real | PosInf | NegInf | NaN

primrec ulp_down :: "nat \<Rightarrow> real \<Rightarrow> real \<Rightarrow> real" where
  "ulp_down 0 a u = u"
| "ulp_down (Suc n) a u = (if a < 2 ^ 23 * u then ulp_down n a (u / 2) else u)"

primrec ulp_up :: "nat \<Rightarrow> real \<Rightarrow> real \<Rightarrow> real" where
  "ulp_up 0 a u = u"
| "ulp_up (Suc n) a u = (if 2 ^ 24 * u \<le> a then ulp_up n a (2 * u) else u)"

definition ulp :: "real \<Rightarrow> real" where
  "ulp a = (if a < 2 ^ 23 then ulp_down 149 a 1 else ulp_up 104 a 1)"

definition rne :: "real \<Rightarrow> int" where
  "rne q = (let f = \<lfloor>q\<rfloor>; r = q - of_int f in
            if r < 1/2 then f else if 1/2 < r then f + 1 else if even f then f else f + 1)"

definition fround :: "real \<Rightarrow> float32" where
  "fround x =
     (if x = 0 then Finite 0
      else let a = \<bar>x\<bar>; u = ulp a; y = of_int (rne (a / u)) * u in
        if 2 ^ 128 \<le> y then (if x < 0 then NegInf else PosInf)
        else Finite (if x < 0 then - y else y))"

text \<open>The operations of Go on \<^verbatim>\<open>float32\<close> that \<^verbatim>\<open>TrialStats\<close> uses: \<^verbatim>\<open>x - y\<close>,
  \<^verbatim>\<open>x + y\<close>, \<^verbatim>\<open>x * y\<close>, \<^verbatim>\<open>math32.Abs(x)\<close>, \<^verbatim>\<open>x < y\<close> and \<^verbatim>\<open>x != y\<close>. The result of
  an operation on two numbers is the exact result rounded; the other cases are those
  of IEEE 754.\<close>

fun f32_sub :: "float32 \<Rightarrow> float32 \<Rightarrow> float32" where
  "f32_sub (Finite a) (Finite b) = fround (a - b)"
| "f32_sub NaN y = NaN"
| "f32_sub x NaN = NaN"
| "f32_sub PosInf PosInf = NaN"
| "f32_sub NegInf NegInf = NaN"
| "f32_sub PosInf y = PosInf"
| "f32_sub NegInf y = NegInf"
| "f32_sub x PosInf = NegInf"
| "f32_sub x NegInf = PosInf"

fun f32_add :: "float32 \<Rightarrow> float32 \<Rightarrow> float32" where
  "f32_add (Finite a) (Finite b) = fround (a + b)"
| "f32_add NaN y = NaN"
| "f32_add x NaN = NaN"
| "f32_add PosInf NegInf = NaN"
| "f32_add NegInf PosInf = NaN"
| "f32_add PosInf y = PosInf"
| "f32_add NegInf y = NegInf"
| "f32_add x PosInf = PosInf"
| "f32_add x NegInf = NegInf"

fun f32_sgn :: "float32 \<Rightarrow> real" where
  "f32_sgn (Finite a) = sgn a"
| "f32_sgn PosInf = 1"
| "f32_sgn NegInf = - 1"
| "f32_sgn NaN = 0"

fun f32_mul :: "float32 \<Rightarrow> float32 \<Rightarrow> float32" where
  "f32_mul (Finite a) (Finite b) = fround (a * b)"
| "f32_mul NaN y = NaN"
| "f32_mul x NaN = NaN"
| "f32_mul x y =
     (if f32_sgn x * f32_sgn y = 0 then NaN
      else if 0 < f32_sgn x * f32_sgn y then PosInf else NegInf)"

fun f32_abs :: "float32 \<Rightarrow> float32" where
  "f32_abs (Finite a) = Finite \<bar>a\<bar>"
| "f32_abs PosInf = PosInf"
| "f32_abs NegInf = PosInf"
| "f32_abs NaN = NaN"

fun f32_less :: "float32 \<Rightarrow> float32 \<Rightarrow> bool" where
  "f32_less (Finite a) (Finite b) = (a < b)"
| "f32_less NaN y = False"
| "f32_less x NaN = False"
| "f32_less PosInf y = False"
| "f32_less x PosInf = True"
| "f32_less NegInf y = True"
| "f32_less x NegInf = False"

fun f32_neq :: "float32 \<Rightarrow> float32 \<Rightarrow> bool" where
  "f32_neq (Finite a) (Finite b) = (a \<noteq> b)"
| "f32_neq PosInf PosInf = False"
| "f32_neq NegInf NegInf = False"
| "f32_neq x y = True"

text \<open>The four named layers of \<^verbatim>\<open>ConfigNet\<close>, which are also the column names of the
  pattern table, and the layer types of \<^verbatim>\<open>emer\<close>.\<close>

datatype layer = Context | Goal | Motor | Outcome

datatype layer_type = Hidden | Input | Target

text \<open>
  The network \<^verbatim>\<open>ss.Net\<close> belongs to the leabra library. The driver only calls it, so
  the network is modelled by the chronological list of the calls made on it, and what
  the driver reads back from it is a function of that list, supplied by \<open>extern\<close> below.
\<close>

datatype call =
    InitExt
  | SetType layer layer_type
  | ApplyExt layer "real list"
  | AlphaCycInit
  | Cycle
  | QuarterFinal
  | DWt
  | WtFmDWt
  | StyleParams
  | InitWts

text \<open>A column of the pattern table: a tensor with \<open>CellSize\<close> cells per row and its
  flat \<^verbatim>\<open>Values\<close>. The pattern table \<^verbatim>\<open>ExtReps\<close> has its row count and the four
  columns, which are taken to exist.\<close>

record tensor =
  CellSize :: nat
  Values :: "real list"

record table =
  Rows :: nat
  Cols :: "layer \<Rightarrow> tensor"

text \<open>
  What the driver reads from its collaborators. \<open>UnitVals net l\<close> is
  \<^verbatim>\<open>l.UnitVals("ActP")\<close>: the values and whether the error is non-nil. \<open>MSE net l tol\<close>
  is \<^verbatim>\<open>l.MSE(tol)\<close>, \<open>CosDiff\<close> is \<^verbatim>\<open>l.CosDiff.Cos\<close>, \<open>ActM net l\<close> lists
  the \<^verbatim>\<open>float32\<close> field \<^verbatim>\<open>ActM\<close> of \<^verbatim>\<open>l.Neurons\<close> in order, \<open>ActMAvg\<close> is \<^verbatim>\<open>l.Pools[0].ActAvg.ActMAvg\<close>.
  The generator of \<^verbatim>\<open>math/rand\<close> is a state of type \<open>nat\<close>: \<open>rand_Seed\<close> is the state
  after \<^verbatim>\<open>rand.Seed\<close>, \<open>rand_Perm\<close> and \<open>PermuteInts\<close> return their result and the
  next state. \<open>OpenCSV t\<close> is \<^verbatim>\<open>et.OpenCSV\<close> on the pattern file, called on the
  table \<open>t\<close>: either the error (\<open>Inl\<close>) or the table as read (\<open>Inr\<close>). The library
  opens and parses the whole file before it changes the table, so a call that returns
  an error leaves the table as it was.
\<close>

record extern =
  UnitVals :: "call list \<Rightarrow> layer \<Rightarrow> real list \<times> bool"
  MSE :: "call list \<Rightarrow> layer \<Rightarrow> real \<Rightarrow> real \<times> real"
  CosDiff :: "call list \<Rightarrow> layer \<Rightarrow> real"
  ActM :: "call list \<Rightarrow> layer \<Rightarrow> float32 list"
  ActMAvg :: "call list \<Rightarrow> layer \<Rightarrow> real"
  rand_Seed :: "int \<Rightarrow> nat"
  rand_Perm :: "nat \<Rightarrow> nat \<Rightarrow> int list \<times> nat"
  PermuteInts :: "nat \<Rightarrow> int list \<Rightarrow> int list \<times> nat"
  OpenCSV :: "table \<Rightarrow> string + table"

text \<open>The epoch log \<^verbatim>\<open>EpcLog\<close>: each column of the schema of \<^verbatim>\<open>ConfigEpcLog\<close>, by
  name, holds one number per row.\<close>

type_synonym log_table = "string \<Rightarrow> real list"

text \<open>The fields of \<^verbatim>\<open>Sim\<close> that the control loop reads or writes. The fields of the
  display (\<^verbatim>\<open>ViewOn\<close>, \<^verbatim>\<open>TrainUpdt\<close>, \<^verbatim>\<open>NetView\<close>, the plot) are left out, and so
  are the calls that only redraw. \<open>CycPerQtr\<close> is \<^verbatim>\<open>ss.Time.CycPerQtr\<close>; \<open>Rng\<close> is the
  state of the global generator of \<^verbatim>\<open>math/rand\<close>; \<open>Out\<close> collects the lines printed.\<close>

record Sim =
  Net :: "call list"
  ExtReps :: table
  EpcLog :: log_table
  MaxEpcs :: int
  Epoch :: int
  Trial :: int
  AlphaCycle :: int
  CycPerQtr :: int
  Sequential :: bool
  Test :: bool
  EpcMotSSE :: real
  EpcOutSSE :: real
  EpcMotAvgSSE :: real
  EpcOutAvgSSE :: real
  EpcOutGoalPctErr :: real
  EpcOutPredPctErr :: real
  EpcOutGoalPctCor :: real
  EpcOutPredPctCor :: real
  EpcMotCosDiff :: real
  EpcOutCosDiff :: real
  MotSumSSE :: real
  MotSumAvgSSE :: real
  MotSumCosDiff :: real
  OutSumSSE :: real
  OutSumAvgSSE :: real
  OutSumCosDiff :: real
  OutGoalCntErr :: int
  OutPredCntErr :: int
  Porder :: "int list"
  StopNow :: bool
  RndSeed :: int
  Rng :: nat
  Out :: "string list"

text \<open>The eight named results of \<^verbatim>\<open>TrialStats\<close>; a result that a branch does not
  assign keeps Go's zero value.\<close>

record stats =
  gsse :: real
  msse :: real
  osse :: real
  gavgsse :: real
  mavgsse :: real
  oavgsse :: real
  motcosdiff :: real
  outcosdiff :: real

section \<open>Tensors and tables\<close>

text \<open>\<^verbatim>\<open>tsr.SetFloat1D(off, val)\<close> assigns \<^verbatim>\<open>tsr.Values[off]\<close> and panics outside the
  slice.\<close>

definition SetFloat1D :: "int \<Rightarrow> real \<Rightarrow> real list \<Rightarrow> error + real list" where
  "SetFloat1D off v vals =
     (if 0 \<le> off \<and> off < int (length vals) then Inr (vals[nat off := v]) else Inl Panic)"

text \<open>\<^verbatim>\<open>tsr.SubSpace(2, []int{row})\<close> followed by \<^verbatim>\<open>ApplyExt\<close>: the cells of the row.
  A row outside the tensor gives no cells to read, and the read panics.\<close>

definition SubSpace :: "tensor \<Rightarrow> int \<Rightarrow> error + real list" where
  "SubSpace tsr row =
     (if 0 \<le> row \<and> (nat row + 1) * CellSize tsr \<le> length (Values tsr)
      then Inr (take (CellSize tsr) (drop (nat row * CellSize tsr) (Values tsr)))
      else Inl Panic)"

text \<open>Reading \<^verbatim>\<open>xs[i]\<close> of a Go slice.\<close>

definition index :: "'a list \<Rightarrow> int \<Rightarrow> error + 'a" where
  "index xs i = (if 0 \<le> i \<and> i < int (length xs) then Inr (xs ! nat i) else Inl Panic)"

definition set_col :: "layer \<Rightarrow> real list \<Rightarrow> table \<Rightarrow> table" where
  "set_col l vals t = t\<lparr>Cols := (Cols t)(l := (Cols t l)\<lparr>Values := vals\<rparr>)\<rparr>"

text \<open>\<^verbatim>\<open>EpcLog.SetNumRows(n)\<close> cuts or extends every column to \<open>n\<close> rows, and
  \<^verbatim>\<open>EpcLog.ColByName(name).SetFloat1D(i, v)\<close> writes one cell.\<close>

definition SetNumRows :: "int \<Rightarrow> log_table \<Rightarrow> log_table" where
  "SetNumRows n lg =
     (\<lambda>name. take (nat n) (lg name) @ replicate (nat n - length (lg name)) 0)"

definition log_set :: "string \<Rightarrow> int \<Rightarrow> real \<Rightarrow> log_table \<Rightarrow> error + log_table" where
  "log_set name i v lg = and_then (SetFloat1D i v (lg name)) (\<lambda>c. Inr (lg(name := c)))"

fun log_sets :: "(string \<times> real) list \<Rightarrow> int \<Rightarrow> log_table \<Rightarrow> error + log_table" where
  "log_sets [] i lg = Inr lg"
| "log_sets ((name, v) # kvs) i lg = and_then (log_set name i v lg) (log_sets kvs i)"

section \<open>Running the network\<close>

text \<open>\<^verbatim>\<open>AlphaCyc\<close>: four quarters of \<^verbatim>\<open>CycPerQtr\<close> cycles each, then the two learning
  calls when \<open>train\<close> holds.\<close>

primrec cyc_loop :: "nat \<Rightarrow> call list \<Rightarrow> call list" where
  "cyc_loop 0 net = net"
| "cyc_loop (Suc n) net = cyc_loop n (net @ [Cycle])"

primrec qtr_loop :: "nat \<Rightarrow> nat \<Rightarrow> call list \<Rightarrow> call list" where
  "qtr_loop 0 cpq net = net"
| "qtr_loop (Suc q) cpq net = qtr_loop q cpq (cyc_loop cpq net @ [QuarterFinal])"

definition AlphaCyc :: "bool \<Rightarrow> Sim \<Rightarrow> Sim" where
  "AlphaCyc train ss =
     (let net1 = qtr_loop 4 (nat (CycPerQtr ss)) (Net ss @ [AlphaCycInit]);
          net2 = (if train then net1 @ [DWt, WtFmDWt] else net1)
      in ss\<lparr>Net := net2\<rparr>)"

text \<open>\<^verbatim>\<open>ApplyInputs\<close>: in sub-phase 0 the context and the outcome of the row are
  applied; in sub-phase 1 the goal layer receives the outcome of the row (\<^verbatim>\<open>g = o\<close>)
  and the motor layer the motor of the row.\<close>

definition ApplyInputs :: "table \<Rightarrow> int \<Rightarrow> Sim \<Rightarrow> error + Sim" where
  "ApplyInputs extreps row ss =
     (let net0 = Net ss @ [InitExt] in
      if AlphaCycle ss = 0 then
        and_then (SubSpace (Cols extreps Context) row) (\<lambda>c.
        and_then (SubSpace (Cols extreps Outcome) row) (\<lambda>ov.
          Inr (ss\<lparr>Net := net0 @ [SetType Goal Hidden, SetType Motor Hidden,
                 SetType Outcome Target, ApplyExt Context c, ApplyExt Outcome ov]\<rparr>)))
      else if AlphaCycle ss = 1 then
        and_then (SubSpace (Cols extreps Goal) row) (\<lambda>g.
        and_then (SubSpace (Cols extreps Outcome) row) (\<lambda>ov.
        and_then (SubSpace (Cols extreps Motor) row) (\<lambda>m.
          Inr (ss\<lparr>Net := net0 @ [SetType Goal Input, SetType Motor Target,
                 SetType Outcome Hidden, ApplyExt Goal ov, ApplyExt Motor m]\<rparr>))))
      else Inr (ss\<lparr>Net := net0,
                  Out := Out ss @ [''AlphaCycle appears to be out-of-range'']\<rparr>))"

section \<open>Trial statistics\<close>

text \<open>The loop of \<^verbatim>\<open>TrialStats\<close> over \<^verbatim>\<open>goalLay.Neurons\<close>: unit \<open>ni\<close> of the goal
  layer is compared with unit \<open>ni\<close> of the outcome layer, and reading
  \<^verbatim>\<open>outcomeLay.Neurons[ni]\<close> panics when the outcome layer has no such unit. The
  difference \<^verbatim>\<open>d\<close>, the tolerance and the sum \<^verbatim>\<open>oge\<close> are \<^verbatim>\<open>float32\<close>, and each
  operation rounds. Where a compiler fuses \<^verbatim>\<open>oge += d * d\<close> into one rounding the sum
  may differ in its last place, not in whether it is 0.\<close>

fun oge_loop :: "float32 \<Rightarrow> float32 list \<Rightarrow> float32 list \<Rightarrow> float32 \<Rightarrow> error + float32" where
  "oge_loop tol [] nos oge = Inr oge"
| "oge_loop tol (ng # ngs) [] oge = Inl Panic"
| "oge_loop tol (ng # ngs) (no # nos) oge =
     (let d = f32_sub ng no in
      if f32_less (f32_abs d) tol then oge_loop tol ngs nos oge
      else oge_loop tol ngs nos (f32_add oge (f32_mul d d)))"

definition TrialStats :: "extern \<Rightarrow> bool \<Rightarrow> Sim \<Rightarrow> error + (stats \<times> Sim)" where
  "TrialStats ext accum ss =
     (if AlphaCycle ss = 0 then
        (let (gsse', gavgsse') = MSE ext (Net ss) Goal 0.5;
             (osse', oavgsse') = MSE ext (Net ss) Outcome 0.5;
             outcosdiff' = CosDiff ext (Net ss) Outcome;
             ss1 = (if accum then
                      ss\<lparr>OutSumSSE := OutSumSSE ss + osse',
                         OutSumAvgSSE := OutSumAvgSSE ss + oavgsse',
                         OutSumCosDiff := OutSumCosDiff ss + outcosdiff',
                         OutPredCntErr :=
                           (if osse' \<noteq> 0 then OutPredCntErr ss + 1 else OutPredCntErr ss)\<rparr>
                    else ss);
             tol = Finite (1/2);
             nng = length (ActM ext (Net ss) Goal);
             nno = length (ActM ext (Net ss) Outcome);
             ss2 = (if nng \<noteq> nno then
                      ss1\<lparr>Out := Out ss1 @
                        [''Number of neuron-units does not match between Goal and Outcome layers'']\<rparr>
                    else ss1)
         in and_then
              (oge_loop tol (ActM ext (Net ss) Goal) (ActM ext (Net ss) Outcome) (Finite 0))
              (\<lambda>oge.
                 Inr (\<lparr>gsse = gsse', msse = 0, osse = osse', gavgsse = gavgsse', mavgsse = 0,
                       oavgsse = oavgsse', motcosdiff = 0, outcosdiff = outcosdiff'\<rparr>,
                      if f32_neq oge (Finite 0)
                      then ss2\<lparr>OutGoalCntErr := OutGoalCntErr ss2 + 1\<rparr> else ss2)))
      else if AlphaCycle ss = 1 then
        (let (msse', mavgsse') = MSE ext (Net ss) Motor 0.5;
             motcosdiff' = CosDiff ext (Net ss) Motor;
             ss1 = (if accum then
                      ss\<lparr>MotSumSSE := MotSumSSE ss + msse',
                         MotSumAvgSSE := MotSumAvgSSE ss + mavgsse',
                         MotSumCosDiff := MotSumCosDiff ss + motcosdiff'\<rparr>
                    else ss)
         in Inr (\<lparr>gsse = 0, msse = msse', osse = 0, gavgsse = 0, mavgsse = mavgsse',
                  oavgsse = 0, motcosdiff = motcosdiff', outcosdiff = 0\<rparr>, ss1))
      else
        Inr (\<lparr>gsse = 0, msse = 0, osse = 0, gavgsse = 0, mavgsse = 0,
              oavgsse = 0, motcosdiff = 0, outcosdiff = 0\<rparr>,
             ss\<lparr>Out := Out ss @ [''TrialStats says AlphaCycle appears to be out-of-range'']\<rparr>))"

section \<open>Logging an epoch\<close>

text \<open>\<^verbatim>\<open>LogEpoch\<close>, statement by statement. First the table gets the row of the
  epoch, the epoch statistics are computed from the sums and the sums and counters
  are cleared (\<open>LogEpoch_stats\<close>); then the row of the epoch is written, one
  \<^verbatim>\<open>SetFloat1D\<close> per column, in the order of \<open>LogEpoch_row\<close>. \<^verbatim>\<open>np\<close> is the row count
  as a number; with no rows the Go divisions give NaN or an infinity, which the reals
  here do not have.\<close>

definition LogEpoch_stats :: "Sim \<Rightarrow> Sim" where
  "LogEpoch_stats ss =
     (let ss1 = ss\<lparr>EpcLog := SetNumRows (Epoch ss + 1) (EpcLog ss)\<rparr>;
          np = real (Rows (ExtReps ss1));
          ss2 = ss1\<lparr>EpcMotSSE := MotSumSSE ss1 / np, EpcOutSSE := OutSumSSE ss1 / np\<rparr>;
          ss3 = ss2\<lparr>MotSumSSE := 0, OutSumSSE := 0\<rparr>;
          ss4 = ss3\<lparr>EpcMotAvgSSE := MotSumAvgSSE ss3 / np,
                    EpcOutAvgSSE := OutSumAvgSSE ss3 / np\<rparr>;
          ss5 = ss4\<lparr>MotSumAvgSSE := 0, OutSumAvgSSE := 0\<rparr>;
          ss6 = ss5\<lparr>EpcOutGoalPctErr := real_of_int (OutGoalCntErr ss5) / np,
                    EpcOutPredPctErr := real_of_int (OutPredCntErr ss5) / np\<rparr>;
          ss7 = ss6\<lparr>OutGoalCntErr := 0, OutPredCntErr := 0\<rparr>;
          ss8 = ss7\<lparr>EpcOutGoalPctCor := 1 - EpcOutGoalPctErr ss7,
                    EpcOutPredPctCor := 1 - EpcOutPredPctErr ss7\<rparr>;
          ss9 = ss8\<lparr>EpcMotCosDiff := MotSumCosDiff ss8 / np,
                    EpcOutCosDiff := OutSumCosDiff ss8 / np\<rparr>
      in ss9\<lparr>MotSumCosDiff := 0, OutSumCosDiff := 0\<rparr>)"

definition LogEpoch_row :: "extern \<Rightarrow> Sim \<Rightarrow> (string \<times> real) list" where
  "LogEpoch_row ext ss =
     [(''Epoch'', real_of_int (Epoch ss)),
      (''MotSSE'', EpcMotSSE ss),
      (''OutSSE'', EpcOutSSE ss),
      (''MotAvgSSE'', EpcMotAvgSSE ss),
      (''OutAvgSSE'', EpcOutAvgSSE ss),
      (''OutGoalPctErr'', EpcOutGoalPctErr ss),
      (''OutPredPctErr'', EpcOutPredPctErr ss),
      (''OutGoalPctCor'', EpcOutGoalPctCor ss),
      (''OutPredPctCor'', EpcOutPredPctCor ss),
      (''MotCosDiff'', EpcMotCosDiff ss),
      (''OutCosDiff'', EpcOutCosDiff ss),
      (''ContextActAvg'', ActMAvg ext (Net ss) Context),
      (''GoalActAvg'', ActMAvg ext (Net ss) Goal),
      (''MotorActAvg'', ActMAvg ext (Net ss) Motor),
      (''OutActAvg'', ActMAvg ext (Net ss) Outcome),
      (''OutGoalCntErr'', real_of_int (OutGoalCntErr ss)),
      (''OutPredCntErr'', real_of_int (OutPredCntErr ss))]"

definition LogEpoch :: "extern \<Rightarrow> Sim \<Rightarrow> error + Sim" where
  "LogEpoch ext ss =
     (let ss1 = LogEpoch_stats ss;
          epc = Epoch ss1
      in and_then (log_sets (LogEpoch_row ext ss1) epc (EpcLog ss1))
           (\<lambda>lg. Inr (ss1\<lparr>EpcLog := lg\<rparr>)))"

section \<open>One trial\<close>

text \<open>The two write loops of \<^verbatim>\<open>TrainTrial\<close>. After sub-phase 0,
  \<^verbatim>\<open>for i := range mav\<close> writes \<^verbatim>\<open>mav[i]\<close> at \<^verbatim>\<open>stidx+i\<close>. After sub-phase 1,
  \<^verbatim>\<open>for j := 0; j < msz; j++\<close> writes 0 at \<^verbatim>\<open>row+j\<close>.\<close>

fun capture_loop :: "int \<Rightarrow> real list \<Rightarrow> real list \<Rightarrow> error + real list" where
  "capture_loop off [] vals = Inr vals"
| "capture_loop off (v # av) vals =
     and_then (SetFloat1D off v vals) (capture_loop (off + 1) av)"

primrec reset_loop :: "nat \<Rightarrow> int \<Rightarrow> real list \<Rightarrow> error + real list" where
  "reset_loop 0 off vals = Inr vals"
| "reset_loop (Suc n) off vals = and_then (SetFloat1D off 0 vals) (reset_loop n (off + 1))"

text \<open>The block under \<^verbatim>\<open>if ss.AlphaCycle == 0\<close>: the produced activity of the motor
  and outcome layers is written into the row of the pattern table, each only when its
  read gave no error. It yields \<^verbatim>\<open>msz\<close> and \<^verbatim>\<open>osz\<close>.\<close>

definition capture :: "extern \<Rightarrow> int \<Rightarrow> Sim \<Rightarrow> error + (int \<times> int \<times> Sim)" where
  "capture ext row ss =
     (let (mav, errm) = UnitVals ext (Net ss) Motor;
          msz = int (length mav);
          tnsr = Cols (ExtReps ss) Motor;
          stidx = row * int (CellSize tnsr)
      in and_then (if \<not> errm then capture_loop stidx mav (Values tnsr) else Inr (Values tnsr))
           (\<lambda>mvals.
              let ss1 = ss\<lparr>ExtReps := set_col Motor mvals (ExtReps ss)\<rparr>;
                  (oav, err) = UnitVals ext (Net ss1) Outcome;
                  osz = int (length oav);
                  tsr = Cols (ExtReps ss1) Outcome;
                  sidx = row * int (CellSize tsr)
              in and_then
                   (if \<not> err then capture_loop sidx oav (Values tsr) else Inr (Values tsr))
                   (\<lambda>ovals.
                      Inr (msz, osz, ss1\<lparr>ExtReps := set_col Outcome ovals (ExtReps ss1)\<rparr>))))"

text \<open>The block under \<^verbatim>\<open>if ss.AlphaCycle >= 1\<close>, before its \<^verbatim>\<open>break\<close>.\<close>

definition reset :: "int \<Rightarrow> int \<Rightarrow> int \<Rightarrow> Sim \<Rightarrow> error + Sim" where
  "reset row msz osz ss =
     and_then (reset_loop (nat msz) row (Values (Cols (ExtReps ss) Motor))) (\<lambda>mvals.
       let ss1 = ss\<lparr>ExtReps := set_col Motor mvals (ExtReps ss)\<rparr> in
       and_then (reset_loop (nat osz) row (Values (Cols (ExtReps ss1) Outcome))) (\<lambda>ovals.
         Inr (ss1\<lparr>ExtReps := set_col Outcome ovals (ExtReps ss1)\<rparr>)))"

text \<open>One pass through the body of \<^verbatim>\<open>for ss.AlphaCycle < 2\<close>. The sizes
  \<^verbatim>\<open>var msz, osz int\<close> are declared inside the body, so every pass starts with both
  at 0. The result says whether the pass left the loop by \<^verbatim>\<open>break\<close>.\<close>

definition TrainTrial_body :: "extern \<Rightarrow> int \<Rightarrow> Sim \<Rightarrow> error + (bool \<times> Sim)" where
  "TrainTrial_body ext row ss =
     and_then (ApplyInputs (ExtReps ss) row ss) (\<lambda>ss1.
       let ss2 = AlphaCyc True ss1 in
       and_then (if AlphaCycle ss2 = 0 then capture ext row ss2 else Inr (0, 0, ss2))
         (\<lambda>(msz, osz, ss3).
            if AlphaCycle ss3 \<ge> 1 then
              and_then (reset row msz osz ss3) (\<lambda>ss4. Inr (True, ss4))
            else
              and_then (TrialStats ext True ss3) (\<lambda>(st, ss4).
                Inr (False, ss4\<lparr>AlphaCycle := AlphaCycle ss4 + 1\<rparr>))))"

lemma and_then_Inl [simp]: "and_then (Inl e) f = Inl e"
  by (simp add: and_then_def)

lemma and_then_Inr [simp]: "and_then (Inr x) f = f x"
  by (simp add: and_then_def)

lemma and_then_eq_Inr: "and_then m f = Inr y \<longleftrightarrow> (\<exists>x. m = Inr x \<and> f x = Inr y)"
  by (cases m) simp_all

lemma and_then_cong [fundef_cong]:
  "m = m' \<Longrightarrow> (\<And>x. m' = Inr x \<Longrightarrow> f x = f' x) \<Longrightarrow> and_then m f = and_then m' f'"
  by (cases m') simp_all

lemma ApplyInputs_AlphaCycle:
  "ApplyInputs t row ss = Inr ss' \<Longrightarrow> AlphaCycle ss' = AlphaCycle ss"
  by (auto simp: ApplyInputs_def Let_def and_then_eq_Inr split: if_splits)

lemma AlphaCyc_AlphaCycle [simp]: "AlphaCycle (AlphaCyc train ss) = AlphaCycle ss"
  by (simp add: AlphaCyc_def Let_def)

lemma capture_AlphaCycle:
  "capture ext row ss = Inr (msz, osz, ss') \<Longrightarrow> AlphaCycle ss' = AlphaCycle ss"
  by (auto simp: capture_def Let_def split_beta and_then_eq_Inr)

lemma TrialStats_shape:
  "TrialStats ext accum ss = Inr (st, ss') \<Longrightarrow>
     ss' = ss\<lparr>MotSumSSE := MotSumSSE ss', MotSumAvgSSE := MotSumAvgSSE ss',
              MotSumCosDiff := MotSumCosDiff ss', OutSumSSE := OutSumSSE ss',
              OutSumAvgSSE := OutSumAvgSSE ss', OutSumCosDiff := OutSumCosDiff ss',
              OutGoalCntErr := OutGoalCntErr ss', OutPredCntErr := OutPredCntErr ss',
              Out := Out ss'\<rparr>"
  by (cases "oge_loop (Finite (1/2)) (ActM ext (Net ss) Goal) (ActM ext (Net ss) Outcome) (Finite 0)")
     (auto simp: TrialStats_def Let_def split_beta split: if_splits)

lemma TrialStats_AlphaCycle:
  "TrialStats ext accum ss = Inr (st, ss') \<Longrightarrow> AlphaCycle ss' = AlphaCycle ss"
  by (drule TrialStats_shape) (erule ssubst, simp)

lemma TrainTrial_body_AlphaCycle:
  assumes "TrainTrial_body ext row ss = Inr (False, ss')"
  shows "AlphaCycle ss' = AlphaCycle ss + 1"
  using assms
  by (auto simp: TrainTrial_body_def Let_def split_beta and_then_eq_Inr
      split: if_splits
      dest!: ApplyInputs_AlphaCycle capture_AlphaCycle TrialStats_AlphaCycle)

text \<open>The loop \<^verbatim>\<open>for ss.AlphaCycle < 2\<close> of \<^verbatim>\<open>TrainTrial\<close>.\<close>

function TrainTrial_loop :: "extern \<Rightarrow> int \<Rightarrow> Sim \<Rightarrow> error + Sim" where
  "TrainTrial_loop ext row ss =
     (if AlphaCycle ss < 2 then
        and_then (TrainTrial_body ext row ss)
          (\<lambda>(brk, ss'). if brk then Inr ss' else TrainTrial_loop ext row ss')
      else Inr ss)"
  by pat_completeness auto
termination
proof (relation "measure (\<lambda>(ext, row, ss). nat (2 - AlphaCycle ss))")
  show "wf (measure (\<lambda>(ext, row, ss). nat (2 - AlphaCycle ss)))"
    by simp
next
  fix ext :: extern and row :: int and ss :: Sim and x :: "bool \<times> Sim" and brk ss'
  assume "AlphaCycle ss < 2" "TrainTrial_body ext row ss = Inr x" "(brk, ss') = x" "\<not> brk"
  then have "AlphaCycle ss' = AlphaCycle ss + 1"
    using TrainTrial_body_AlphaCycle [of ext row ss ss'] by auto
  with \<open>AlphaCycle ss < 2\<close>
  show "((ext, row, ss'), (ext, row, ss)) \<in> measure (\<lambda>(ext, row, ss). nat (2 - AlphaCycle ss))"
    by simp
qed

declare TrainTrial_loop.simps [simp del]

text \<open>The rest of \<^verbatim>\<open>TrainTrial\<close> after its loop: the statistics of the last
  sub-phase, the trial counter and, when the counter reaches the row count, the epoch
  boundary.\<close>

definition TrainTrial_finish :: "extern \<Rightarrow> Sim \<Rightarrow> error + Sim" where
  "TrainTrial_finish ext ss1 =
     and_then (TrialStats ext True ss1) (\<lambda>(st, ss2).
       let ss3 = ss2\<lparr>Trial := Trial ss2 + 1\<rparr>;
           nr = int (Rows (ExtReps ss3))
       in if Trial ss3 \<ge> nr then
            and_then (LogEpoch ext ss3) (\<lambda>ss4.
              let ss5 = ss4\<lparr>Trial := 0\<rparr>;
                  ss6 = ss5\<lparr>Epoch := Epoch ss5 + 1\<rparr>;
                  (p, g) = PermuteInts ext (Rng ss6) (Porder ss6)
              in Inr (ss6\<lparr>Porder := p, Rng := g\<rparr>))
          else Inr ss3)"

definition TrainTrial :: "extern \<Rightarrow> Sim \<Rightarrow> error + Sim" where
  "TrainTrial ext ss =
     and_then (if \<not> Sequential ss then index (Porder ss) (Trial ss) else Inr (Trial ss))
       (\<lambda>row.
          and_then (TrainTrial_loop ext row (ss\<lparr>AlphaCycle := 0\<rparr>)) (TrainTrial_finish ext))"

section \<open>Initialising, training and stopping\<close>

text \<open>\<^verbatim>\<open>Init\<close>. \<^verbatim>\<open>ss.Time.Reset()\<close> clears the time counters, which are not
  modelled, and sets \<^verbatim>\<open>CycPerQtr\<close> to its default of 25 when it is 0. The draws
  that \<^verbatim>\<open>InitWts\<close> makes from the random generator belong to the network library and
  are not modelled; the network is the list of the calls made on it.\<close>

definition Init :: "extern \<Rightarrow> Sim \<Rightarrow> Sim" where
  "Init ext ss =
     (let g0 = rand_Seed ext (RndSeed ss);
          ss1 = (if MaxEpcs ss = 0 then ss\<lparr>MaxEpcs := 500\<rparr> else ss);
          ss2 = ss1\<lparr>Epoch := 0, Trial := 0, StopNow := False\<rparr>;
          ss3 = (if CycPerQtr ss2 = 0 then ss2\<lparr>CycPerQtr := 25\<rparr> else ss2);
          np = Rows (ExtReps ss3);
          (p, g1) = rand_Perm ext g0 np;
          ss4 = ss3\<lparr>Porder := p, Rng := g1\<rparr>;
          ss5 = ss4\<lparr>Net := Net ss4 @ [StyleParams, InitWts]\<rparr>
      in ss5\<lparr>EpcLog := SetNumRows 0 (EpcLog ss5)\<rparr>)"

definition Stop :: "Sim \<Rightarrow> Sim" where
  "Stop ss = ss\<lparr>StopNow := True\<rparr>"

text \<open>\<^verbatim>\<open>TrainEpoch\<close> and \<^verbatim>\<open>Train\<close> loop until their test after a trial holds. The
  loops take fuel, one unit a trial, and \<open>None\<close> is a loop that has not ended when the
  fuel is spent. The timing line that \<^verbatim>\<open>Train\<close> prints is left out.\<close>

fun TrainEpoch_loop :: "nat \<Rightarrow> extern \<Rightarrow> int \<Rightarrow> Sim \<Rightarrow> (error + Sim) option" where
  "TrainEpoch_loop 0 ext curEpc ss = None"
| "TrainEpoch_loop (Suc fuel) ext curEpc ss =
     (case TrainTrial ext ss of
        Inl e \<Rightarrow> Some (Inl e)
      | Inr ss' \<Rightarrow>
          if StopNow ss' \<or> Epoch ss' > curEpc then Some (Inr ss')
          else TrainEpoch_loop fuel ext curEpc ss')"

definition TrainEpoch :: "nat \<Rightarrow> extern \<Rightarrow> Sim \<Rightarrow> (error + Sim) option" where
  "TrainEpoch fuel ext ss = TrainEpoch_loop fuel ext (Epoch ss) ss"

fun Train_loop :: "nat \<Rightarrow> extern \<Rightarrow> Sim \<Rightarrow> (error + Sim) option" where
  "Train_loop 0 ext ss = None"
| "Train_loop (Suc fuel) ext ss =
     (case TrainTrial ext ss of
        Inl e \<Rightarrow> Some (Inl e)
      | Inr ss' \<Rightarrow>
          if StopNow ss' \<or> Epoch ss' \<ge> MaxEpcs ss' then Some (Inr ss')
          else Train_loop fuel ext ss')"

definition Train :: "nat \<Rightarrow> extern \<Rightarrow> Sim \<Rightarrow> (error + Sim) option" where
  "Train fuel ext ss = Train_loop fuel ext (ss\<lparr>StopNow := False\<rparr>)"

text \<open>\<^verbatim>\<open>OpenExtReps\<close>: the pattern file is read into the table; an error is logged
  and nothing else is done about it.\<close>

definition OpenExtReps :: "extern \<Rightarrow> Sim \<Rightarrow> Sim" where
  "OpenExtReps ext ss =
     (case OpenCSV ext (ExtReps ss) of
        Inl err \<Rightarrow> ss\<lparr>Out := Out ss @ [err]\<rparr>
      | Inr et \<Rightarrow> ss\<lparr>ExtReps := et\<rparr>)"

section \<open>Example configurations\<close>

text \<open>Concrete collaborators and states, on which the theorems below are instantiated.
  \<open>sim_start t\<close> is a \<^verbatim>\<open>Sim\<close> with the pattern table \<open>t\<close>, one cycle per quarter and
  every counter and sum at zero. \<open>one_row\<close> is a pattern table of one row and one cell
  per column, with outcome 1 and the other columns 0.\<close>

definition sim_start :: "table \<Rightarrow> Sim" where
  "sim_start t = \<lparr>Net = [], ExtReps = t, EpcLog = (\<lambda>name. []), MaxEpcs = 1, Epoch = 0,
     Trial = 0, AlphaCycle = 0, CycPerQtr = 1, Sequential = False, Test = False,
     EpcMotSSE = 0, EpcOutSSE = 0, EpcMotAvgSSE = 0, EpcOutAvgSSE = 0,
     EpcOutGoalPctErr = 0, EpcOutPredPctErr = 0, EpcOutGoalPctCor = 0, EpcOutPredPctCor = 0,
     EpcMotCosDiff = 0, EpcOutCosDiff = 0, MotSumSSE = 0, MotSumAvgSSE = 0, MotSumCosDiff = 0,
     OutSumSSE = 0, OutSumAvgSSE = 0, OutSumCosDiff = 0, OutGoalCntErr = 0, OutPredCntErr = 0,
     Porder = [], StopNow = False, RndSeed = 1, Rng = 0, Out = []\<rparr>"

definition one_row :: table where
  "one_row =
     \<lparr>Rows = 1, Cols = (\<lambda>l. \<lparr>CellSize = 1, Values = [if l = Outcome then 1 else 0]\<rparr>)\<rparr>"

text \<open>\<open>sim_counted\<close>: the end of an epoch in which two goal mismatches and three
  prediction errors were counted.\<close>

definition sim_counted :: Sim where
  "sim_counted = (sim_start one_row)\<lparr>OutGoalCntErr := 2, OutPredCntErr := 3\<rparr>"

text \<open>\<open>sim_testing\<close>: a \<^verbatim>\<open>Sim\<close> with \<^verbatim>\<open>Test\<close> set, the field described as "set to true to
  not call learning methods".\<close>

definition sim_testing :: Sim where
  "sim_testing = (sim_start one_row)\<lparr>Porder := [0], Test := True\<rparr>"

text \<open>\<open>ext_units gs os\<close>: a network whose goal layer has the units \<open>gs\<close> and whose
  other layers have the units \<open>os\<close> (their \<^verbatim>\<open>ActM\<close>, each the \<^verbatim>\<open>float32\<close> nearest to
  the number given), with no error to measure. The generator gives the identity order
  and leaves an order as it is.\<close>

definition ext_units :: "real list \<Rightarrow> real list \<Rightarrow> extern" where
  "ext_units gs os = \<lparr>UnitVals = (\<lambda>net l. ([1/2], False)),
     MSE = (\<lambda>net l tol. (0, 0)), CosDiff = (\<lambda>net l. 1),
     ActM = (\<lambda>net l. map fround (if l = Goal then gs else os)), ActMAvg = (\<lambda>net l. 0),
     rand_Seed = (\<lambda>seed. 0), rand_Perm = (\<lambda>g n. (map int [0..<n], g)),
     PermuteInts = (\<lambda>g p. (p, g)), OpenCSV = (\<lambda>t. Inr t)\<rparr>"

text \<open>\<open>no_rows\<close>: a pattern table that holds no rows yet, as it is before any pattern
  file has been read. \<open>ext_nofile\<close>: collaborators for which the pattern file cannot be
  opened. \<open>sim_ready\<close>: a \<^verbatim>\<open>Sim\<close> on \<open>one_row\<close> after \<^verbatim>\<open>Init\<close>, with the order of
  presentation \<open>[0]\<close>.\<close>

definition no_rows :: table where
  "no_rows = \<lparr>Rows = 0, Cols = (\<lambda>l. \<lparr>CellSize = 25, Values = []\<rparr>)\<rparr>"

definition ext_nofile :: extern where
  "ext_nofile = (ext_units [0] [0])\<lparr>OpenCSV :=
     (\<lambda>t. Inl ''open goal-guy-0-5x5-25-gen.dat: no such file or directory'')\<rparr>"

definition sim_ready :: Sim where
  "sim_ready = (sim_start one_row)\<lparr>Porder := [0]\<rparr>"


text \<open>\<open>two_rows\<close>: a pattern table of two rows; \<open>sim_two\<close>: a \<^verbatim>\<open>Sim\<close> on it at the
  start of an epoch, with the order of presentation \<open>[1, 0]\<close>. \<open>ext_counting\<close>: a
  network whose measured error is the number of calls made on it so far, so that
  every trial measures another error.\<close>

definition two_rows :: table where
  "two_rows =
     \<lparr>Rows = 2, Cols = (\<lambda>l. \<lparr>CellSize = 1, Values = (if l = Outcome then [1, 1] else [0, 0])\<rparr>)\<rparr>"

definition sim_two :: Sim where
  "sim_two = (sim_start two_rows)\<lparr>Porder := [1, 0]\<rparr>"

definition ext_counting :: extern where
  "ext_counting = (ext_units [0] [0])\<lparr>MSE := (\<lambda>net l tol. (real (length net), 0))\<rparr>"

text \<open>\<open>ext_steady\<close>: a network that measures the same error, 1, whenever it is asked.\<close>

definition ext_steady :: extern where
  "ext_steady = (ext_units [0] [0])\<lparr>MSE := (\<lambda>net l tol. (1, 1))\<rparr>"

text \<open>\<open>sim_restarted\<close>: the state in which a second run starts. A first run on
  \<open>two_rows\<close> is initialised and trained, a stop request ends it after the first of the
  two trials of its epoch, and \<^verbatim>\<open>Init\<close> is run again.\<close>

definition sim_restarted :: Sim where
  "sim_restarted =
     (case Train_loop 4 ext_steady (Stop (Init ext_steady (sim_start two_rows))) of
        Some (Inr ss) \<Rightarrow> Init ext_steady ss
      | _ \<Rightarrow> sim_start two_rows)"

text \<open>\<open>ext_measured\<close>: a network with two units in each layer, 0.7 and 0 in the goal
  layer and 0.2 and 1 in the outcome layer, that measures an outcome error of 3.\<close>

definition ext_measured :: extern where
  "ext_measured = (ext_units [7/10, 0] [1/5, 1])\<lparr>MSE := (\<lambda>net l tol. (3, 3/2))\<rparr>"

text \<open>What a test reads off a state: the cells of a row of the pattern table, and the
  outcome patterns that were applied to the network as the target of sub-phase 0 (the
  only place where \<^verbatim>\<open>ApplyInputs\<close> applies to the outcome layer).\<close>

definition pattern_row :: "layer \<Rightarrow> int \<Rightarrow> Sim \<Rightarrow> error + real list" where
  "pattern_row l row ss = SubSpace (Cols (ExtReps ss) l) row"

fun is_outcome_clamp :: "call \<Rightarrow> bool" where
  "is_outcome_clamp (ApplyExt Outcome v) = True"
| "is_outcome_clamp c = False"

definition outcome_clamps :: "Sim \<Rightarrow> error + call list" where
  "outcome_clamps ss = Inr (filter is_outcome_clamp (Net ss))"

section \<open>The goal and outcome layers compared unit by unit\<close>

lemma oge_loop_short:
  "length nos < length ngs \<Longrightarrow> oge_loop tol ngs nos oge = Inl Panic"
  by (induction tol ngs nos oge rule: oge_loop.induct) (simp_all add: Let_def)

text \<open>Rounding does not take a number of 1/4 or more below 1/4. \<open>grown r\<close>: the sum
  \<^verbatim>\<open>oge\<close> after at least one unit has been added to it is a number of 1/4 or more,
  the positive infinity or NaN, and so differs from 0.\<close>

lemma fround_0 [simp]: "fround 0 = Finite 0"
  by (simp add: fround_def)

fun grown :: "float32 \<Rightarrow> bool" where
  "grown (Finite z) = (1/4 \<le> z)"
| "grown PosInf = True"
| "grown NegInf = False"
| "grown NaN = True"

lemma ulp_down_form:
  "\<exists>k\<le>n. ulp_down n a u = u / 2 ^ k \<and> (k < n \<longrightarrow> 2 ^ 23 * (u / 2 ^ k) \<le> a)"
proof (induction n arbitrary: u)
  case 0
  then show ?case by simp
next
  case (Suc n)
  show ?case
  proof (cases "a < 2 ^ 23 * u")
    case True
    from Suc [of "u / 2"] obtain k where k: "k \<le> n" "ulp_down n a (u / 2) = u / 2 / 2 ^ k"
      "k < n \<longrightarrow> 2 ^ 23 * (u / 2 / 2 ^ k) \<le> a"
      by blast
    with True show ?thesis
      by (intro exI [of _ "Suc k"]) simp
  next
    case False
    then show ?thesis
      by (intro exI [of _ 0]) simp
  qed
qed

lemma ulp_up_form:
  "2 ^ 23 * u \<le> a \<Longrightarrow> \<exists>k\<le>n. ulp_up n a u = u * 2 ^ k \<and> 2 ^ 23 * (u * 2 ^ k) \<le> a"
proof (induction n arbitrary: u)
  case 0
  then show ?case by simp
next
  case (Suc n)
  show ?case
  proof (cases "2 ^ 24 * u \<le> a")
    case True
    then have "2 ^ 23 * (2 * u) \<le> a" by simp
    from Suc.IH [OF this] obtain k where k: "k \<le> n" "ulp_up n a (2 * u) = 2 * u * 2 ^ k"
      "2 ^ 23 * (2 * u * 2 ^ k) \<le> a"
      by blast
    with True show ?thesis
      by (intro exI [of _ "Suc k"]) (simp add: mult.assoc mult.left_commute)
  next
    case False
    with Suc.prems show ?thesis
      by (intro exI [of _ 0]) simp
  qed
qed

lemma rne_ge_floor: "\<lfloor>q\<rfloor> \<le> rne q"
  by (simp add: rne_def Let_def)

lemma round_ge:
  assumes "0 < u" and "real_of_int m * u \<le> y"
  shows "real_of_int m * u \<le> real_of_int (rne (y / u)) * u"
proof -
  from assms have "real_of_int m \<le> y / u"
    by (simp add: pos_le_divide_eq)
  then have "m \<le> \<lfloor>y / u\<rfloor>"
    by (simp add: le_floor_iff)
  with rne_ge_floor [of "y / u"] have "m \<le> rne (y / u)"
    by simp
  then have "real_of_int m \<le> real_of_int (rne (y / u))"
    by simp
  with assms(1) show ?thesis
    by (simp add: mult_right_mono)
qed

lemma ulp_quarter:
  assumes "1/4 \<le> y"
  shows "0 < ulp y \<and> 1/4 \<le> real_of_int (rne (y / ulp y)) * ulp y"
proof -
  have main: "0 < ulp y \<and> 1/4 \<le> real_of_int (rne (y / ulp y)) * ulp y"
    if u: "0 < ulp y" and m: "real_of_int m * ulp y \<le> y" "1/4 \<le> real_of_int m * ulp y" for m
  proof -
    from round_ge [OF u m(1)] m(2)
    have "1/4 \<le> real_of_int (rne (y / ulp y)) * ulp y"
      by (rule order_trans [rotated])
    with u show ?thesis by blast
  qed
  show ?thesis
  proof (cases "y < 2 ^ 23")
    case True
    from ulp_down_form [of 149 y 1] obtain k where
      k: "k \<le> 149" "ulp_down 149 y 1 = 1 / 2 ^ k" "k < 149 \<longrightarrow> 2 ^ 23 * (1 / 2 ^ k) \<le> y"
      by blast
    have u: "ulp y = 1 / 2 ^ k"
      using True k(2) by (simp add: ulp_def)
    have pos: "0 < ulp y"
      unfolding u by simp
    show ?thesis
    proof (cases "2 \<le> k")
      case True
      then obtain j where j: "k = j + 2"
        by (metis add.commute le_Suc_ex)
      have e: "real_of_int (2 ^ j) * ulp y = 1/4"
        unfolding u by (simp add: j power_add)
      show ?thesis
        using main [OF pos, of "2 ^ j"] assms unfolding e by simp
    next
      case False
      then consider "k = 0" | "k = 1" by linarith
      then have "real_of_int (2 ^ 23) * ulp y \<le> y \<and> 1/4 \<le> real_of_int (2 ^ 23) * ulp y"
      proof cases
        case 1
        with k(3) show ?thesis unfolding u by simp
      next
        case 2
        with k(3) show ?thesis unfolding u by simp
      qed
      then show ?thesis
        using main [OF pos, of "2 ^ 23"] by blast
    qed
  next
    case False
    then have "2 ^ 23 * 1 \<le> y" by simp
    from ulp_up_form [OF this, of 104] obtain k where
      k: "ulp_up 104 y 1 = 1 * 2 ^ k" "2 ^ 23 * (1 * 2 ^ k) \<le> y"
      by blast
    have u: "ulp y = 2 ^ k"
      using False k(1) by (simp add: ulp_def)
    have pos: "0 < ulp y"
      unfolding u by simp
    have 1: "real_of_int (2 ^ 23) * ulp y \<le> y"
      unfolding u using k(2) by simp
    have "(1::real) \<le> 2 ^ k" by simp
    then have "(1::real) \<le> 33554432 * 2 ^ k" by linarith
    then have 2: "1/4 \<le> real_of_int (2 ^ 23) * ulp y"
      unfolding u by simp
    show ?thesis
      using main [OF pos 1 2] .
  qed
qed

lemma fround_grown: "1/4 \<le> y \<Longrightarrow> grown (fround y)"
  using ulp_quarter [of y] by (simp add: fround_def Let_def)

lemma f32_mul_grown:
  "\<not> f32_less (f32_abs d) (Finite (1/2)) \<Longrightarrow> grown (f32_mul d d)"
proof (cases d)
  case (Finite x)
  assume "\<not> f32_less (f32_abs d) (Finite (1/2))"
  with Finite have "1/2 \<le> \<bar>x\<bar>" by simp
  then have "(1/2)\<^sup>2 \<le> \<bar>x\<bar>\<^sup>2"
    by (intro power_mono) simp_all
  then have "1/4 \<le> x * x"
    by (simp add: power2_eq_square)
  with Finite show ?thesis by (simp add: fround_grown)
qed simp_all

lemma f32_add_grown:
  "oge = Finite 0 \<or> grown oge \<Longrightarrow> grown s \<Longrightarrow> grown (f32_add oge s)"
  by (cases oge; cases s) (auto intro: fround_grown)

lemma grown_neq: "grown r \<Longrightarrow> f32_neq r (Finite 0)"
  by (cases r) auto

lemma oge_loop_total:
  assumes "length ngs \<le> length nos" and "oge = Finite 0 \<or> grown oge"
  shows "\<exists>r. oge_loop (Finite (1/2)) ngs nos oge = Inr r \<and>
           (if \<exists>i<length ngs. \<not> f32_less (f32_abs (f32_sub (ngs ! i) (nos ! i))) (Finite (1/2))
            then grown r else r = oge)"
  using assms
proof (induction ngs arbitrary: nos oge)
  case Nil
  then show ?case by simp
next
  case (Cons ng ngs)
  then obtain no nos' where nos: "nos = no # nos'" "length ngs \<le> length nos'"
    by (cases nos) auto
  let ?d = "f32_sub ng no"
  let ?P = "\<lambda>i. \<not> f32_less (f32_abs (f32_sub (ngs ! i) (nos' ! i))) (Finite (1/2))"
  have split: "(\<exists>i<length (ng # ngs).
        \<not> f32_less (f32_abs (f32_sub ((ng # ngs) ! i) (nos ! i))) (Finite (1/2)))
      \<longleftrightarrow> \<not> f32_less (f32_abs ?d) (Finite (1/2)) \<or> (\<exists>i<length ngs. ?P i)"
    unfolding nos by (auto simp: less_Suc_eq_0_disj)
  show ?case
  proof (cases "f32_less (f32_abs ?d) (Finite (1/2))")
    case True
    from Cons.IH [OF nos(2) Cons.prems(2)] obtain r where
      "oge_loop (Finite (1/2)) ngs nos' oge = Inr r"
      "if \<exists>i<length ngs. ?P i then grown r else r = oge"
      by blast
    with True show ?thesis
      unfolding split unfolding nos by (simp add: Let_def)
  next
    case False
    let ?oge = "f32_add oge (f32_mul ?d ?d)"
    have g: "grown ?oge"
      using f32_add_grown [OF Cons.prems(2) f32_mul_grown [OF False]] .
    then have "?oge = Finite 0 \<or> grown ?oge" by simp
    from Cons.IH [OF nos(2) this] obtain r where
      r: "oge_loop (Finite (1/2)) ngs nos' ?oge = Inr r"
      "if \<exists>i<length ngs. ?P i then grown r else r = ?oge"
      by blast
    from r(2) g have "grown r" by (auto split: if_splits)
    with r(1) False show ?thesis
      unfolding split unfolding nos by (simp add: Let_def)
  qed
qed

lemma oge_loop_counts:
  assumes "length ngs \<le> length nos"
  shows "\<exists>r. oge_loop (Finite (1/2)) ngs nos (Finite 0) = Inr r \<and>
           (f32_neq r (Finite 0) \<longleftrightarrow>
            (\<exists>i<length ngs. \<not> f32_less (f32_abs (f32_sub (ngs ! i) (nos ! i))) (Finite (1/2))))"
proof -
  from oge_loop_total [OF assms, of "Finite 0"] obtain r where
    r: "oge_loop (Finite (1/2)) ngs nos (Finite 0) = Inr r"
    "if \<exists>i<length ngs. \<not> f32_less (f32_abs (f32_sub (ngs ! i) (nos ! i))) (Finite (1/2))
            then grown r else r = Finite 0"
    by blast
  from r(2) have "f32_neq r (Finite 0) \<longleftrightarrow>
            (\<exists>i<length ngs. \<not> f32_less (f32_abs (f32_sub (ngs ! i) (nos ! i))) (Finite (1/2)))"
    by (auto split: if_splits dest: grown_neq)
  with r(1) show ?thesis by blast
qed

text \<open>
  Claim C3. When the goal and outcome layers have different unit counts, the trial
  statistics are to print a warning and carry on. The code prints the warning, and
  then reads \<^verbatim>\<open>outcomeLay.Neurons[ni]\<close> for every unit of the goal layer: when the goal
  layer has more units than the outcome layer, the statistics of sub-phase 0 panic.
\<close>

theorem TrialStats_unit_mismatch_panics:
  assumes "AlphaCycle ss = 0"
    and "length (ActM ext (Net ss) Outcome) < length (ActM ext (Net ss) Goal)"
  shows "TrialStats ext accum ss = Inl Panic"
  using assms by (simp add: TrialStats_def Let_def split_beta oge_loop_short)

theorem TrialStats_unit_mismatch_panics_witness:
  "TrialStats (ext_units [0, 0] [0]) True (sim_start one_row) = Inl Panic"
  using TrialStats_unit_mismatch_panics [of "sim_start one_row" "ext_units [0, 0] [0]" True]
  by (simp add: sim_start_def ext_units_def)

section \<open>The row of an epoch\<close>

lemma SetFloat1D_nth:
  "SetFloat1D i v vals = Inr vals' \<Longrightarrow> vals' ! nat i = v \<and> length vals' = length vals"
  by (auto simp: SetFloat1D_def split: if_splits)

lemma log_set_same:
  "log_set k i v lg = Inr lg' \<Longrightarrow> lg' k ! nat i = v"
  by (auto simp: log_set_def and_then_eq_Inr dest: SetFloat1D_nth)

lemma log_set_other:
  "log_set k i v lg = Inr lg' \<Longrightarrow> k' \<noteq> k \<Longrightarrow> lg' k' = lg k'"
  by (auto simp: log_set_def and_then_eq_Inr)

lemma log_sets_other:
  "log_sets kvs i lg = Inr lg' \<Longrightarrow> k \<notin> fst ` set kvs \<Longrightarrow> lg' k = lg k"
proof (induction kvs arbitrary: lg)
  case Nil
  then show ?case by simp
next
  case (Cons kv kvs)
  obtain k0 v0 where kv: "kv = (k0, v0)" by (cases kv)
  with Cons.prems obtain lg1 where
    1: "log_set k0 i v0 lg = Inr lg1" and 2: "log_sets kvs i lg1 = Inr lg'"
    by (auto simp: and_then_eq_Inr)
  from Cons.prems kv have "k \<noteq> k0" "k \<notin> fst ` set kvs" by auto
  with Cons.IH [OF 2] log_set_other [OF 1] show ?case by simp
qed

lemma log_sets_cell:
  "log_sets kvs i lg = Inr lg' \<Longrightarrow> distinct (map fst kvs) \<Longrightarrow> (k, v) \<in> set kvs
     \<Longrightarrow> lg' k ! nat i = v"
proof (induction kvs arbitrary: lg)
  case Nil
  then show ?case by simp
next
  case (Cons kv kvs)
  obtain k0 v0 where kv: "kv = (k0, v0)" by (cases kv)
  with Cons.prems obtain lg1 where
    1: "log_set k0 i v0 lg = Inr lg1" and 2: "log_sets kvs i lg1 = Inr lg'"
    by (auto simp: and_then_eq_Inr)
  show ?case
  proof (cases "(k, v) = (k0, v0)")
    case True
    with Cons.prems kv have "k \<notin> fst ` set kvs" by auto
    from log_sets_other [OF 2 this] log_set_same [OF 1] True show ?thesis by simp
  next
    case False
    with Cons.prems kv have "(k, v) \<in> set kvs" "distinct (map fst kvs)" by auto
    with Cons.IH [OF 2] show ?thesis by simp
  qed
qed

lemma LogEpoch_row_distinct: "distinct (map fst (LogEpoch_row ext ss))"
  by (simp add: LogEpoch_row_def)

lemma LogEpoch_stats_Epoch [simp]: "Epoch (LogEpoch_stats ss) = Epoch ss"
  by (simp add: LogEpoch_stats_def Let_def)

lemma LogEpoch_cell:
  assumes "LogEpoch ext ss = Inr ss'"
    and "(k, v) \<in> set (LogEpoch_row ext (LogEpoch_stats ss))"
  shows "EpcLog ss' k ! nat (Epoch ss) = v"
proof -
  from assms(1) obtain lg where
    lg: "log_sets (LogEpoch_row ext (LogEpoch_stats ss)) (Epoch ss)
           (EpcLog (LogEpoch_stats ss)) = Inr lg"
    and ss': "ss' = (LogEpoch_stats ss)\<lparr>EpcLog := lg\<rparr>"
    by (auto simp: LogEpoch_def Let_def and_then_eq_Inr)
  from log_sets_cell [OF lg LogEpoch_row_distinct assms(2)] ss' show ?thesis
    by simp
qed

text \<open>
  Claim C2. The row of a completed epoch is to hold the raw error counts of the epoch
  in the columns \<^verbatim>\<open>OutGoalCntErr\<close> and \<^verbatim>\<open>OutPredCntErr\<close>. \<^verbatim>\<open>LogEpoch\<close> sets both
  counters to 0 after the percentages are computed and writes the two columns from
  the counters at its end, so the two columns of every row hold 0, whatever was
  counted.
\<close>

theorem LogEpoch_counts_cleared_before_logged:
  assumes "LogEpoch ext ss = Inr ss'"
  shows "EpcLog ss' ''OutGoalCntErr'' ! nat (Epoch ss) = 0 \<and>
         EpcLog ss' ''OutPredCntErr'' ! nat (Epoch ss) = 0"
proof -
  have "OutGoalCntErr (LogEpoch_stats ss) = 0" "OutPredCntErr (LogEpoch_stats ss) = 0"
    by (simp_all add: LogEpoch_stats_def Let_def)
  then have "(''OutGoalCntErr'', 0) \<in> set (LogEpoch_row ext (LogEpoch_stats ss))"
    and "(''OutPredCntErr'', 0) \<in> set (LogEpoch_row ext (LogEpoch_stats ss))"
    by (simp_all add: LogEpoch_row_def)
  with assms show ?thesis
    by (simp add: LogEpoch_cell)
qed

theorem LogEpoch_counts_cleared_before_logged_witness:
  "OutGoalCntErr sim_counted = 2 \<and> OutPredCntErr sim_counted = 3 \<and>
   (\<exists>ss'. LogEpoch (ext_units [0] [0]) sim_counted = Inr ss' \<and>
      EpcLog ss' ''OutGoalCntErr'' ! 0 = 0 \<and> EpcLog ss' ''OutPredCntErr'' ! 0 = 0)"
proof -
  obtain ss' where ss': "LogEpoch (ext_units [0] [0]) sim_counted = Inr ss'"
    by (simp add: LogEpoch_def LogEpoch_stats_def LogEpoch_row_def Let_def sim_counted_def
        sim_start_def SetNumRows_def log_set_def SetFloat1D_def)
  from LogEpoch_counts_cleared_before_logged [OF ss'] ss' show ?thesis
    by (auto simp: sim_counted_def sim_start_def)
qed

section \<open>The course of a trial\<close>

text \<open>What each step of a trial may change, and the trial written out: the loop of
  \<^verbatim>\<open>TrainTrial\<close> makes exactly two passes, the first with \<^verbatim>\<open>AlphaCycle\<close> 0 and the
  second with \<^verbatim>\<open>AlphaCycle\<close> 1, and in the second the sizes are 0 again, so that its
  two clearing loops do not run.\<close>

lemma ApplyInputs_shape:
  "ApplyInputs t row ss = Inr ss' \<Longrightarrow> ss' = ss\<lparr>Net := Net ss', Out := Out ss'\<rparr>"
  by (auto simp: ApplyInputs_def Let_def and_then_eq_Inr split: if_splits)

lemma AlphaCyc_shape: "AlphaCyc b ss = ss\<lparr>Net := Net (AlphaCyc b ss)\<rparr>"
  by (simp add: AlphaCyc_def Let_def)

lemma capture_shape:
  "capture ext row ss = Inr (msz, osz, ss') \<Longrightarrow> ss' = ss\<lparr>ExtReps := ExtReps ss'\<rparr>"
  by (auto simp: capture_def Let_def split_beta and_then_eq_Inr)

lemma reset_shape:
  "reset row msz osz ss = Inr ss' \<Longrightarrow> ss' = ss\<lparr>ExtReps := ExtReps ss'\<rparr>"
  by (auto simp: reset_def Let_def and_then_eq_Inr)

lemma set_col_same [simp]: "set_col l (Values (Cols t l)) t = t"
  by (simp add: set_col_def)

lemma reset_zero [simp]: "reset row 0 0 ss = Inr ss"
  by (simp add: reset_def Let_def)

lemma TrainTrial_body_0:
  assumes "AlphaCycle ss = 0"
  shows "TrainTrial_body ext row ss =
    and_then (ApplyInputs (ExtReps ss) row ss) (\<lambda>ss1.
    and_then (capture ext row (AlphaCyc True ss1)) (\<lambda>(msz, osz, ss3).
    and_then (TrialStats ext True ss3) (\<lambda>(st, ss4).
      Inr (False, ss4\<lparr>AlphaCycle := 1\<rparr>))))"
proof (cases "ApplyInputs (ExtReps ss) row ss")
  case (Inl e)
  then show ?thesis by (simp add: TrainTrial_body_def)
next
  case a: (Inr ss1)
  with assms have 0: "AlphaCycle (AlphaCyc True ss1) = 0"
    by (simp add: ApplyInputs_AlphaCycle)
  show ?thesis
  proof (cases "capture ext row (AlphaCyc True ss1)")
    case (Inl e)
    with a 0 show ?thesis by (simp add: TrainTrial_body_def Let_def)
  next
    case c: (Inr x)
    obtain msz osz ss3 where x: "x = (msz, osz, ss3)" by (cases x)
    with c 0 have 3: "AlphaCycle ss3 = 0" by (auto dest: capture_AlphaCycle)
    show ?thesis
    proof (cases "TrialStats ext True ss3")
      case (Inl e)
      with a 0 c x 3 show ?thesis by (simp add: TrainTrial_body_def Let_def)
    next
      case t: (Inr y)
      obtain st ss4 where y: "y = (st, ss4)" by (cases y)
      with t 3 have "AlphaCycle ss4 = 0" by (auto dest: TrialStats_AlphaCycle)
      with a 0 c x 3 t y show ?thesis by (simp add: TrainTrial_body_def Let_def)
    qed
  qed
qed

lemma TrainTrial_body_1:
  assumes "AlphaCycle ss = 1"
  shows "TrainTrial_body ext row ss =
    and_then (ApplyInputs (ExtReps ss) row ss) (\<lambda>ss1. Inr (True, AlphaCyc True ss1))"
proof (cases "ApplyInputs (ExtReps ss) row ss")
  case (Inl e)
  then show ?thesis by (simp add: TrainTrial_body_def)
next
  case a: (Inr ss1)
  with assms have "AlphaCycle (AlphaCyc True ss1) = 1"
    by (simp add: ApplyInputs_AlphaCycle)
  with a show ?thesis by (simp add: TrainTrial_body_def Let_def)
qed

lemma TrainTrial_InrE:
  assumes "TrainTrial ext ss = Inr ss'"
  obtains row s1 msz osz s3 st s4 s5 where
    "(if \<not> Sequential ss then index (Porder ss) (Trial ss) else Inr (Trial ss)) = Inr row"
    "ApplyInputs (ExtReps ss) row (ss\<lparr>AlphaCycle := 0\<rparr>) = Inr s1"
    "capture ext row (AlphaCyc True s1) = Inr (msz, osz, s3)"
    "TrialStats ext True s3 = Inr (st, s4)"
    "ApplyInputs (ExtReps s4) row (s4\<lparr>AlphaCycle := 1\<rparr>) = Inr s5"
    "TrainTrial_finish ext (AlphaCyc True s5) = Inr ss'"
proof -
  from assms obtain row sl where
    row: "(if \<not> Sequential ss then index (Porder ss) (Trial ss) else Inr (Trial ss)) = Inr row"
    and loop: "TrainTrial_loop ext row (ss\<lparr>AlphaCycle := 0\<rparr>) = Inr sl"
    and fin: "TrainTrial_finish ext sl = Inr ss'"
    by (auto simp: TrainTrial_def and_then_eq_Inr)
  from loop obtain brk sb where
    b0: "TrainTrial_body ext row (ss\<lparr>AlphaCycle := 0\<rparr>) = Inr (brk, sb)"
    and rest: "(if brk then Inr sb else TrainTrial_loop ext row sb) = Inr sl"
    by (subst (asm) TrainTrial_loop.simps) (auto simp: and_then_eq_Inr)
  from b0 obtain s1 msz osz s3 st s4 where
    a: "ApplyInputs (ExtReps ss) row (ss\<lparr>AlphaCycle := 0\<rparr>) = Inr s1"
    and c: "capture ext row (AlphaCyc True s1) = Inr (msz, osz, s3)"
    and t: "TrialStats ext True s3 = Inr (st, s4)"
    and sb: "brk = False" "sb = s4\<lparr>AlphaCycle := 1\<rparr>"
    by (subst (asm) TrainTrial_body_0) (auto simp: and_then_eq_Inr)
  from rest sb have "TrainTrial_loop ext row (s4\<lparr>AlphaCycle := 1\<rparr>) = Inr sl" by simp
  then obtain s5 where
    a1: "ApplyInputs (ExtReps s4) row (s4\<lparr>AlphaCycle := 1\<rparr>) = Inr s5"
    and sl: "sl = AlphaCyc True s5"
    by (subst (asm) TrainTrial_loop.simps)
       (auto simp: and_then_eq_Inr TrainTrial_body_1)
  from that [OF row a c t a1] fin sl show thesis by simp
qed

lemma LogEpoch_stats_shape:
  "LogEpoch_stats ss = ss\<lparr>EpcLog := EpcLog (LogEpoch_stats ss),
     EpcMotSSE := EpcMotSSE (LogEpoch_stats ss), EpcOutSSE := EpcOutSSE (LogEpoch_stats ss),
     EpcMotAvgSSE := EpcMotAvgSSE (LogEpoch_stats ss),
     EpcOutAvgSSE := EpcOutAvgSSE (LogEpoch_stats ss),
     EpcOutGoalPctErr := EpcOutGoalPctErr (LogEpoch_stats ss),
     EpcOutPredPctErr := EpcOutPredPctErr (LogEpoch_stats ss),
     EpcOutGoalPctCor := EpcOutGoalPctCor (LogEpoch_stats ss),
     EpcOutPredPctCor := EpcOutPredPctCor (LogEpoch_stats ss),
     EpcMotCosDiff := EpcMotCosDiff (LogEpoch_stats ss),
     EpcOutCosDiff := EpcOutCosDiff (LogEpoch_stats ss),
     MotSumSSE := 0, MotSumAvgSSE := 0, MotSumCosDiff := 0,
     OutSumSSE := 0, OutSumAvgSSE := 0, OutSumCosDiff := 0,
     OutGoalCntErr := 0, OutPredCntErr := 0\<rparr>"
  by (simp add: LogEpoch_stats_def Let_def)

lemma LogEpoch_shape:
  assumes "LogEpoch ext ss = Inr ss'"
  shows "ss' = ss\<lparr>EpcLog := EpcLog ss',
     EpcMotSSE := EpcMotSSE ss', EpcOutSSE := EpcOutSSE ss',
     EpcMotAvgSSE := EpcMotAvgSSE ss', EpcOutAvgSSE := EpcOutAvgSSE ss',
     EpcOutGoalPctErr := EpcOutGoalPctErr ss', EpcOutPredPctErr := EpcOutPredPctErr ss',
     EpcOutGoalPctCor := EpcOutGoalPctCor ss', EpcOutPredPctCor := EpcOutPredPctCor ss',
     EpcMotCosDiff := EpcMotCosDiff ss', EpcOutCosDiff := EpcOutCosDiff ss',
     MotSumSSE := 0, MotSumAvgSSE := 0, MotSumCosDiff := 0,
     OutSumSSE := 0, OutSumAvgSSE := 0, OutSumCosDiff := 0,
     OutGoalCntErr := 0, OutPredCntErr := 0\<rparr>"
proof -
  from assms obtain lg where ss': "ss' = (LogEpoch_stats ss)\<lparr>EpcLog := lg\<rparr>"
    by (auto simp: LogEpoch_def Let_def and_then_eq_Inr)
  show ?thesis
    unfolding ss' by (subst LogEpoch_stats_shape) simp
qed

lemma TrainTrial_finish_stats:
  "TrainTrial_finish ext ss = Inr ss' \<Longrightarrow> \<exists>st s2. TrialStats ext True ss = Inr (st, s2)"
  by (auto simp: TrainTrial_finish_def and_then_eq_Inr)

lemma TrainTrial_finish_inside:
  assumes "TrainTrial_finish ext ss = Inr ss'" and "TrialStats ext True ss = Inr (st, s2)"
    and "Trial s2 + 1 < int (Rows (ExtReps s2))"
  shows "ss' = s2\<lparr>Trial := Trial s2 + 1\<rparr>"
  using assms by (simp add: TrainTrial_finish_def Let_def)

lemma TrainTrial_finish_boundary:
  assumes "TrainTrial_finish ext ss = Inr ss'" and "TrialStats ext True ss = Inr (st, s2)"
    and "Trial s2 + 1 \<ge> int (Rows (ExtReps s2))"
  shows "\<exists>s4. LogEpoch ext (s2\<lparr>Trial := Trial s2 + 1\<rparr>) = Inr s4 \<and>
            ss' = s4\<lparr>Trial := 0, Epoch := Epoch s4 + 1,
              Porder := fst (PermuteInts ext (Rng s4) (Porder s4)),
              Rng := snd (PermuteInts ext (Rng s4) (Porder s4))\<rparr>"
  using assms
  by (auto simp: TrainTrial_finish_def Let_def split_beta and_then_eq_Inr)

section \<open>Fields that a trial neither reads nor writes\<close>

text \<open>\<^verbatim>\<open>TrainTrial\<close> and every method it calls do the same whatever \<^verbatim>\<open>StopNow\<close> and
  \<^verbatim>\<open>Test\<close> hold, and leave the two fields as they are: changing one of them before
  a step is the same as changing it after the step.\<close>

lemma map_sum_and_then:
  "map_sum id g (and_then m f) = and_then m (\<lambda>x. map_sum id g (f x))"
  by (cases m) simp_all

lemma and_then_map_sum:
  "and_then (map_sum id g m) f = and_then m (\<lambda>x. f (g x))"
  by (cases m) simp_all

lemma StopNow_outward:
  "Net_update f0 (StopNow_update g (ss :: Sim)) = StopNow_update g (Net_update f0 ss)"
  "ExtReps_update f1 (StopNow_update g (ss :: Sim)) = StopNow_update g (ExtReps_update f1 ss)"
  "EpcLog_update f2 (StopNow_update g (ss :: Sim)) = StopNow_update g (EpcLog_update f2 ss)"
  "Epoch_update f3 (StopNow_update g (ss :: Sim)) = StopNow_update g (Epoch_update f3 ss)"
  "Trial_update f4 (StopNow_update g (ss :: Sim)) = StopNow_update g (Trial_update f4 ss)"
  "AlphaCycle_update f5 (StopNow_update g (ss :: Sim)) = StopNow_update g (AlphaCycle_update f5 ss)"
  "EpcMotSSE_update f6 (StopNow_update g (ss :: Sim)) = StopNow_update g (EpcMotSSE_update f6 ss)"
  "EpcOutSSE_update f7 (StopNow_update g (ss :: Sim)) = StopNow_update g (EpcOutSSE_update f7 ss)"
  "EpcMotAvgSSE_update f8 (StopNow_update g (ss :: Sim)) = StopNow_update g (EpcMotAvgSSE_update f8 ss)"
  "EpcOutAvgSSE_update f9 (StopNow_update g (ss :: Sim)) = StopNow_update g (EpcOutAvgSSE_update f9 ss)"
  "EpcOutGoalPctErr_update f10 (StopNow_update g (ss :: Sim)) = StopNow_update g (EpcOutGoalPctErr_update f10 ss)"
  "EpcOutPredPctErr_update f11 (StopNow_update g (ss :: Sim)) = StopNow_update g (EpcOutPredPctErr_update f11 ss)"
  "EpcOutGoalPctCor_update f12 (StopNow_update g (ss :: Sim)) = StopNow_update g (EpcOutGoalPctCor_update f12 ss)"
  "EpcOutPredPctCor_update f13 (StopNow_update g (ss :: Sim)) = StopNow_update g (EpcOutPredPctCor_update f13 ss)"
  "EpcMotCosDiff_update f14 (StopNow_update g (ss :: Sim)) = StopNow_update g (EpcMotCosDiff_update f14 ss)"
  "EpcOutCosDiff_update f15 (StopNow_update g (ss :: Sim)) = StopNow_update g (EpcOutCosDiff_update f15 ss)"
  "MotSumSSE_update f16 (StopNow_update g (ss :: Sim)) = StopNow_update g (MotSumSSE_update f16 ss)"
  "MotSumAvgSSE_update f17 (StopNow_update g (ss :: Sim)) = StopNow_update g (MotSumAvgSSE_update f17 ss)"
  "MotSumCosDiff_update f18 (StopNow_update g (ss :: Sim)) = StopNow_update g (MotSumCosDiff_update f18 ss)"
  "OutSumSSE_update f19 (StopNow_update g (ss :: Sim)) = StopNow_update g (OutSumSSE_update f19 ss)"
  "OutSumAvgSSE_update f20 (StopNow_update g (ss :: Sim)) = StopNow_update g (OutSumAvgSSE_update f20 ss)"
  "OutSumCosDiff_update f21 (StopNow_update g (ss :: Sim)) = StopNow_update g (OutSumCosDiff_update f21 ss)"
  "OutGoalCntErr_update f22 (StopNow_update g (ss :: Sim)) = StopNow_update g (OutGoalCntErr_update f22 ss)"
  "OutPredCntErr_update f23 (StopNow_update g (ss :: Sim)) = StopNow_update g (OutPredCntErr_update f23 ss)"
  "Porder_update f24 (StopNow_update g (ss :: Sim)) = StopNow_update g (Porder_update f24 ss)"
  "Rng_update f25 (StopNow_update g (ss :: Sim)) = StopNow_update g (Rng_update f25 ss)"
  "Out_update f26 (StopNow_update g (ss :: Sim)) = StopNow_update g (Out_update f26 ss)"
  by simp_all

lemma ApplyInputs_StopNow:
  "ApplyInputs t row (StopNow_update g ss) = map_sum id (StopNow_update g) (ApplyInputs t row ss)"
  by (simp add: ApplyInputs_def Let_def map_sum_and_then StopNow_outward)

lemma AlphaCyc_StopNow:
  "AlphaCyc tr (StopNow_update g ss) = StopNow_update g (AlphaCyc tr ss)"
  by (simp add: AlphaCyc_def Let_def StopNow_outward)

lemma capture_StopNow:
  "capture ext row (StopNow_update g ss) =
     map_sum id (apsnd (apsnd (StopNow_update g))) (capture ext row ss)"
  by (simp add: capture_def Let_def split_beta map_sum_and_then StopNow_outward cong: if_cong)

lemma reset_StopNow:
  "reset row msz osz (StopNow_update g ss) = map_sum id (StopNow_update g) (reset row msz osz ss)"
  by (simp add: reset_def Let_def split_beta map_sum_and_then StopNow_outward)

lemma TrialStats_StopNow:
  "TrialStats ext accum (StopNow_update g ss) =
     map_sum id (apsnd (StopNow_update g)) (TrialStats ext accum ss)"
  by (cases "oge_loop (Finite (1/2)) (ActM ext (Net ss) Goal) (ActM ext (Net ss) Outcome) (Finite 0)")
     (simp_all add: TrialStats_def Let_def split_beta StopNow_outward)

lemma LogEpoch_StopNow:
  "LogEpoch ext (StopNow_update g ss) = map_sum id (StopNow_update g) (LogEpoch ext ss)"
  by (simp add: LogEpoch_def LogEpoch_stats_def LogEpoch_row_def Let_def map_sum_and_then
      StopNow_outward del: log_sets.simps)

lemma TrainTrial_finish_StopNow:
  "TrainTrial_finish ext (StopNow_update g ss) =
     map_sum id (StopNow_update g) (TrainTrial_finish ext ss)"
proof (cases "TrialStats ext True ss")
  case (Inl e)
  then show ?thesis by (simp add: TrainTrial_finish_def TrialStats_StopNow)
next
  case (Inr x)
  obtain st s2 where x: "x = (st, s2)" by (cases x)
  have l: "LogEpoch ext (StopNow_update g s2\<lparr>Trial := Trial s2 + 1\<rparr>) =
      map_sum id (StopNow_update g) (LogEpoch ext (s2\<lparr>Trial := Trial s2 + 1\<rparr>))"
    using LogEpoch_StopNow [of ext g "s2\<lparr>Trial := Trial s2 + 1\<rparr>"]
    by (simp add: StopNow_outward)
  show ?thesis
  proof (cases "LogEpoch ext (s2\<lparr>Trial := Trial s2 + 1\<rparr>)")
    case (Inl e)
    with Inr x l show ?thesis
      by (simp add: TrainTrial_finish_def TrialStats_StopNow Let_def StopNow_outward)
  next
    case s4: (Inr s4)
    with Inr x l show ?thesis
      by (simp add: TrainTrial_finish_def TrialStats_StopNow Let_def split_beta StopNow_outward)
  qed
qed

lemma TrainTrial_body_StopNow:
  "TrainTrial_body ext row (StopNow_update g ss) =
     map_sum id (apsnd (StopNow_update g)) (TrainTrial_body ext row ss)"
proof (cases "ApplyInputs (ExtReps ss) row ss")
  case (Inl e)
  then show ?thesis by (simp add: TrainTrial_body_def ApplyInputs_StopNow)
next
  case a: (Inr ss1)
  let ?c = "if AlphaCycle (AlphaCyc True ss1) = 0 then capture ext row (AlphaCyc True ss1)
            else Inr (0, 0, AlphaCyc True ss1)"
  show ?thesis
  proof (cases ?c)
    case (Inl e)
    with a show ?thesis
      by (auto simp: TrainTrial_body_def ApplyInputs_StopNow AlphaCyc_StopNow capture_StopNow Let_def
          split: if_splits)
  next
    case c: (Inr x)
    obtain msz osz ss3 where x: "x = (msz, osz, ss3)" by (cases x)
    show ?thesis
    proof (cases "1 \<le> AlphaCycle ss3")
      case True
      with a c x show ?thesis
        by (cases "reset row msz osz ss3")
           (auto simp: TrainTrial_body_def ApplyInputs_StopNow AlphaCyc_StopNow capture_StopNow
             reset_StopNow Let_def split: if_splits)
    next
      case False
      show ?thesis
      proof (cases "TrialStats ext True ss3")
        case (Inl e)
        with a c x False show ?thesis
          by (auto simp: TrainTrial_body_def ApplyInputs_StopNow AlphaCyc_StopNow capture_StopNow
              TrialStats_StopNow Let_def split: if_splits)
      next
        case (Inr y)
        obtain st ss4 where y: "y = (st, ss4)" by (cases y)
        with Inr a c x False show ?thesis
          by (auto simp: TrainTrial_body_def ApplyInputs_StopNow AlphaCyc_StopNow capture_StopNow
              TrialStats_StopNow Let_def StopNow_outward split: if_splits)
      qed
    qed
  qed
qed

lemma TrainTrial_loop_StopNow:
  "TrainTrial_loop ext row (StopNow_update g ss) =
     map_sum id (StopNow_update g) (TrainTrial_loop ext row ss)"
proof (induction ext row ss rule: TrainTrial_loop.induct)
  case (1 ext row ss)
  show ?case
  proof (cases "AlphaCycle ss < 2")
    case False
    then show ?thesis by (simp add: TrainTrial_loop.simps)
  next
    case True
    show ?thesis
    proof (cases "TrainTrial_body ext row ss")
      case (Inl e)
      with True show ?thesis
        by (simp add: TrainTrial_loop.simps [of ext row ss]
            TrainTrial_loop.simps [of ext row "StopNow_update g ss"] TrainTrial_body_StopNow)
    next
      case (Inr x)
      obtain brk ss' where x: "x = (brk, ss')" by (cases x)
      show ?thesis
      proof (cases brk)
        case True
        with \<open>AlphaCycle ss < 2\<close> Inr x show ?thesis
          by (simp add: TrainTrial_loop.simps [of ext row ss]
              TrainTrial_loop.simps [of ext row "StopNow_update g ss"] TrainTrial_body_StopNow)
      next
        case False
        from "1.IH" [OF \<open>AlphaCycle ss < 2\<close> Inr x [symmetric] False]
        have "TrainTrial_loop ext row (StopNow_update g ss') =
              map_sum id (StopNow_update g) (TrainTrial_loop ext row ss')" .
        with \<open>AlphaCycle ss < 2\<close> Inr x False show ?thesis
          by (simp add: TrainTrial_loop.simps [of ext row ss]
              TrainTrial_loop.simps [of ext row "StopNow_update g ss"] TrainTrial_body_StopNow id_def)
      qed
    qed
  qed
qed

lemma TrainTrial_StopNow:
  "TrainTrial ext (StopNow_update g ss) = map_sum id (StopNow_update g) (TrainTrial ext ss)"
proof -
  let ?row = "if \<not> Sequential ss then index (Porder ss) (Trial ss) else Inr (Trial ss)"
  show ?thesis
  proof (cases ?row)
    case (Inl e)
    then show ?thesis by (auto simp: TrainTrial_def split: if_splits)
  next
    case (Inr row)
    have "TrainTrial_loop ext row (StopNow_update g ss\<lparr>AlphaCycle := 0\<rparr>) =
          map_sum id (StopNow_update g) (TrainTrial_loop ext row (ss\<lparr>AlphaCycle := 0\<rparr>))"
      using TrainTrial_loop_StopNow [of ext row g "ss\<lparr>AlphaCycle := 0\<rparr>"]
      by (simp add: StopNow_outward)
    with Inr show ?thesis
      by (cases "TrainTrial_loop ext row (ss\<lparr>AlphaCycle := 0\<rparr>)")
         (auto simp: TrainTrial_def TrainTrial_finish_StopNow split: if_splits)
  qed
qed

lemma Test_outward:
  "Net_update f0 (Test_update g (ss :: Sim)) = Test_update g (Net_update f0 ss)"
  "ExtReps_update f1 (Test_update g (ss :: Sim)) = Test_update g (ExtReps_update f1 ss)"
  "EpcLog_update f2 (Test_update g (ss :: Sim)) = Test_update g (EpcLog_update f2 ss)"
  "Epoch_update f3 (Test_update g (ss :: Sim)) = Test_update g (Epoch_update f3 ss)"
  "Trial_update f4 (Test_update g (ss :: Sim)) = Test_update g (Trial_update f4 ss)"
  "AlphaCycle_update f5 (Test_update g (ss :: Sim)) = Test_update g (AlphaCycle_update f5 ss)"
  "EpcMotSSE_update f6 (Test_update g (ss :: Sim)) = Test_update g (EpcMotSSE_update f6 ss)"
  "EpcOutSSE_update f7 (Test_update g (ss :: Sim)) = Test_update g (EpcOutSSE_update f7 ss)"
  "EpcMotAvgSSE_update f8 (Test_update g (ss :: Sim)) = Test_update g (EpcMotAvgSSE_update f8 ss)"
  "EpcOutAvgSSE_update f9 (Test_update g (ss :: Sim)) = Test_update g (EpcOutAvgSSE_update f9 ss)"
  "EpcOutGoalPctErr_update f10 (Test_update g (ss :: Sim)) = Test_update g (EpcOutGoalPctErr_update f10 ss)"
  "EpcOutPredPctErr_update f11 (Test_update g (ss :: Sim)) = Test_update g (EpcOutPredPctErr_update f11 ss)"
  "EpcOutGoalPctCor_update f12 (Test_update g (ss :: Sim)) = Test_update g (EpcOutGoalPctCor_update f12 ss)"
  "EpcOutPredPctCor_update f13 (Test_update g (ss :: Sim)) = Test_update g (EpcOutPredPctCor_update f13 ss)"
  "EpcMotCosDiff_update f14 (Test_update g (ss :: Sim)) = Test_update g (EpcMotCosDiff_update f14 ss)"
  "EpcOutCosDiff_update f15 (Test_update g (ss :: Sim)) = Test_update g (EpcOutCosDiff_update f15 ss)"
  "MotSumSSE_update f16 (Test_update g (ss :: Sim)) = Test_update g (MotSumSSE_update f16 ss)"
  "MotSumAvgSSE_update f17 (Test_update g (ss :: Sim)) = Test_update g (MotSumAvgSSE_update f17 ss)"
  "MotSumCosDiff_update f18 (Test_update g (ss :: Sim)) = Test_update g (MotSumCosDiff_update f18 ss)"
  "OutSumSSE_update f19 (Test_update g (ss :: Sim)) = Test_update g (OutSumSSE_update f19 ss)"
  "OutSumAvgSSE_update f20 (Test_update g (ss :: Sim)) = Test_update g (OutSumAvgSSE_update f20 ss)"
  "OutSumCosDiff_update f21 (Test_update g (ss :: Sim)) = Test_update g (OutSumCosDiff_update f21 ss)"
  "OutGoalCntErr_update f22 (Test_update g (ss :: Sim)) = Test_update g (OutGoalCntErr_update f22 ss)"
  "OutPredCntErr_update f23 (Test_update g (ss :: Sim)) = Test_update g (OutPredCntErr_update f23 ss)"
  "Porder_update f24 (Test_update g (ss :: Sim)) = Test_update g (Porder_update f24 ss)"
  "Rng_update f25 (Test_update g (ss :: Sim)) = Test_update g (Rng_update f25 ss)"
  "Out_update f26 (Test_update g (ss :: Sim)) = Test_update g (Out_update f26 ss)"
  by simp_all

lemma ApplyInputs_Test:
  "ApplyInputs t row (Test_update g ss) = map_sum id (Test_update g) (ApplyInputs t row ss)"
  by (simp add: ApplyInputs_def Let_def map_sum_and_then Test_outward)

lemma AlphaCyc_Test:
  "AlphaCyc tr (Test_update g ss) = Test_update g (AlphaCyc tr ss)"
  by (simp add: AlphaCyc_def Let_def Test_outward)

lemma capture_Test:
  "capture ext row (Test_update g ss) =
     map_sum id (apsnd (apsnd (Test_update g))) (capture ext row ss)"
  by (simp add: capture_def Let_def split_beta map_sum_and_then Test_outward cong: if_cong)

lemma reset_Test:
  "reset row msz osz (Test_update g ss) = map_sum id (Test_update g) (reset row msz osz ss)"
  by (simp add: reset_def Let_def split_beta map_sum_and_then Test_outward)

lemma TrialStats_Test:
  "TrialStats ext accum (Test_update g ss) =
     map_sum id (apsnd (Test_update g)) (TrialStats ext accum ss)"
  by (cases "oge_loop (Finite (1/2)) (ActM ext (Net ss) Goal) (ActM ext (Net ss) Outcome) (Finite 0)")
     (simp_all add: TrialStats_def Let_def split_beta Test_outward)

lemma LogEpoch_Test:
  "LogEpoch ext (Test_update g ss) = map_sum id (Test_update g) (LogEpoch ext ss)"
  by (simp add: LogEpoch_def LogEpoch_stats_def LogEpoch_row_def Let_def map_sum_and_then
      Test_outward del: log_sets.simps)

lemma TrainTrial_finish_Test:
  "TrainTrial_finish ext (Test_update g ss) =
     map_sum id (Test_update g) (TrainTrial_finish ext ss)"
proof (cases "TrialStats ext True ss")
  case (Inl e)
  then show ?thesis by (simp add: TrainTrial_finish_def TrialStats_Test)
next
  case (Inr x)
  obtain st s2 where x: "x = (st, s2)" by (cases x)
  have l: "LogEpoch ext (Test_update g s2\<lparr>Trial := Trial s2 + 1\<rparr>) =
      map_sum id (Test_update g) (LogEpoch ext (s2\<lparr>Trial := Trial s2 + 1\<rparr>))"
    using LogEpoch_Test [of ext g "s2\<lparr>Trial := Trial s2 + 1\<rparr>"]
    by (simp add: Test_outward)
  show ?thesis
  proof (cases "LogEpoch ext (s2\<lparr>Trial := Trial s2 + 1\<rparr>)")
    case (Inl e)
    with Inr x l show ?thesis
      by (simp add: TrainTrial_finish_def TrialStats_Test Let_def Test_outward)
  next
    case s4: (Inr s4)
    with Inr x l show ?thesis
      by (simp add: TrainTrial_finish_def TrialStats_Test Let_def split_beta Test_outward)
  qed
qed

lemma TrainTrial_body_Test:
  "TrainTrial_body ext row (Test_update g ss) =
     map_sum id (apsnd (Test_update g)) (TrainTrial_body ext row ss)"
proof (cases "ApplyInputs (ExtReps ss) row ss")
  case (Inl e)
  then show ?thesis by (simp add: TrainTrial_body_def ApplyInputs_Test)
next
  case a: (Inr ss1)
  let ?c = "if AlphaCycle (AlphaCyc True ss1) = 0 then capture ext row (AlphaCyc True ss1)
            else Inr (0, 0, AlphaCyc True ss1)"
  show ?thesis
  proof (cases ?c)
    case (Inl e)
    with a show ?thesis
      by (auto simp: TrainTrial_body_def ApplyInputs_Test AlphaCyc_Test capture_Test Let_def
          split: if_splits)
  next
    case c: (Inr x)
    obtain msz osz ss3 where x: "x = (msz, osz, ss3)" by (cases x)
    show ?thesis
    proof (cases "1 \<le> AlphaCycle ss3")
      case True
      with a c x show ?thesis
        by (cases "reset row msz osz ss3")
           (auto simp: TrainTrial_body_def ApplyInputs_Test AlphaCyc_Test capture_Test
             reset_Test Let_def split: if_splits)
    next
      case False
      show ?thesis
      proof (cases "TrialStats ext True ss3")
        case (Inl e)
        with a c x False show ?thesis
          by (auto simp: TrainTrial_body_def ApplyInputs_Test AlphaCyc_Test capture_Test
              TrialStats_Test Let_def split: if_splits)
      next
        case (Inr y)
        obtain st ss4 where y: "y = (st, ss4)" by (cases y)
        with Inr a c x False show ?thesis
          by (auto simp: TrainTrial_body_def ApplyInputs_Test AlphaCyc_Test capture_Test
              TrialStats_Test Let_def Test_outward split: if_splits)
      qed
    qed
  qed
qed

lemma TrainTrial_loop_Test:
  "TrainTrial_loop ext row (Test_update g ss) =
     map_sum id (Test_update g) (TrainTrial_loop ext row ss)"
proof (induction ext row ss rule: TrainTrial_loop.induct)
  case (1 ext row ss)
  show ?case
  proof (cases "AlphaCycle ss < 2")
    case False
    then show ?thesis by (simp add: TrainTrial_loop.simps)
  next
    case True
    show ?thesis
    proof (cases "TrainTrial_body ext row ss")
      case (Inl e)
      with True show ?thesis
        by (simp add: TrainTrial_loop.simps [of ext row ss]
            TrainTrial_loop.simps [of ext row "Test_update g ss"] TrainTrial_body_Test)
    next
      case (Inr x)
      obtain brk ss' where x: "x = (brk, ss')" by (cases x)
      show ?thesis
      proof (cases brk)
        case True
        with \<open>AlphaCycle ss < 2\<close> Inr x show ?thesis
          by (simp add: TrainTrial_loop.simps [of ext row ss]
              TrainTrial_loop.simps [of ext row "Test_update g ss"] TrainTrial_body_Test)
      next
        case False
        from "1.IH" [OF \<open>AlphaCycle ss < 2\<close> Inr x [symmetric] False]
        have "TrainTrial_loop ext row (Test_update g ss') =
              map_sum id (Test_update g) (TrainTrial_loop ext row ss')" .
        with \<open>AlphaCycle ss < 2\<close> Inr x False show ?thesis
          by (simp add: TrainTrial_loop.simps [of ext row ss]
              TrainTrial_loop.simps [of ext row "Test_update g ss"] TrainTrial_body_Test id_def)
      qed
    qed
  qed
qed

lemma TrainTrial_Test:
  "TrainTrial ext (Test_update g ss) = map_sum id (Test_update g) (TrainTrial ext ss)"
proof -
  let ?row = "if \<not> Sequential ss then index (Porder ss) (Trial ss) else Inr (Trial ss)"
  show ?thesis
  proof (cases ?row)
    case (Inl e)
    then show ?thesis by (auto simp: TrainTrial_def split: if_splits)
  next
    case (Inr row)
    have "TrainTrial_loop ext row (Test_update g ss\<lparr>AlphaCycle := 0\<rparr>) =
          map_sum id (Test_update g) (TrainTrial_loop ext row (ss\<lparr>AlphaCycle := 0\<rparr>))"
      using TrainTrial_loop_Test [of ext row g "ss\<lparr>AlphaCycle := 0\<rparr>"]
      by (simp add: Test_outward)
    with Inr show ?thesis
      by (cases "TrainTrial_loop ext row (ss\<lparr>AlphaCycle := 0\<rparr>)")
         (auto simp: TrainTrial_def TrainTrial_finish_Test split: if_splits)
  qed
qed

section \<open>A stop request during a trial\<close>

text \<open>\<^verbatim>\<open>Stop\<close> runs on the thread of the interface while \<^verbatim>\<open>Train\<close> runs on its own.
  \<open>TrainTrial_interleaved b0 b1 b2\<close> is \<^verbatim>\<open>TrainTrial\<close> with \<^verbatim>\<open>Stop\<close> run at up to
  three points of the trial: when the trial has begun and before its first pass
  through the loop (\<open>b0\<close>), between the first pass (sub-phase 0 with its capture and
  statistics) and the second (sub-phase 1) (\<open>b1\<close>), and after the loop, before the
  statistics of sub-phase 1 and the epoch log (\<open>b2\<close>).\<close>

definition stop_if :: "bool \<Rightarrow> Sim \<Rightarrow> Sim" where
  "stop_if b ss = (if b then Stop ss else ss)"

definition TrainTrial_interleaved ::
    "bool \<Rightarrow> bool \<Rightarrow> bool \<Rightarrow> extern \<Rightarrow> Sim \<Rightarrow> error + Sim" where
  "TrainTrial_interleaved b0 b1 b2 ext ss =
     and_then (if \<not> Sequential ss then index (Porder ss) (Trial ss) else Inr (Trial ss))
       (\<lambda>row.
          and_then (TrainTrial_body ext row (stop_if b0 (ss\<lparr>AlphaCycle := 0\<rparr>)))
            (\<lambda>(brk, ss1).
               and_then (if brk then Inr (stop_if b1 ss1)
                         else TrainTrial_loop ext row (stop_if b1 ss1))
                 (\<lambda>ss2. TrainTrial_finish ext (stop_if b2 ss2))))"

lemma stop_if_eq: "stop_if b ss = StopNow_update (\<lambda>v. b \<or> v) ss"
  by (simp add: stop_if_def Stop_def)

lemma stop_if_twice: "stop_if b (stop_if c ss) = stop_if (c \<or> b) ss"
  by (auto simp: stop_if_def Stop_def)

lemma map_sum_stop_if_twice:
  "map_sum id (stop_if b) (map_sum id (stop_if c) m) = map_sum id (stop_if (c \<or> b)) m"
  by (cases m) (simp_all add: stop_if_twice)

lemma TrainTrial_interleaved_eq:
  "TrainTrial_interleaved b0 b1 b2 ext ss =
     map_sum id (stop_if (b0 \<or> b1 \<or> b2)) (TrainTrial ext ss)"
proof -
  let ?row = "if \<not> Sequential ss then index (Porder ss) (Trial ss) else Inr (Trial ss)"
  let ?s0 = "ss\<lparr>AlphaCycle := 0\<rparr>"
  show ?thesis
  proof (cases ?row)
    case (Inl e)
    then show ?thesis
      by (auto simp: TrainTrial_interleaved_def TrainTrial_def split: if_splits)
  next
    case (Inr row)
    have loop: "TrainTrial_loop ext row ?s0 =
        and_then (TrainTrial_body ext row ?s0)
          (\<lambda>(brk, ss'). if brk then Inr ss' else TrainTrial_loop ext row ss')"
      by (subst TrainTrial_loop.simps) simp
    have body: "TrainTrial_body ext row (stop_if b0 ?s0) =
        map_sum id (apsnd (stop_if b0)) (TrainTrial_body ext row ?s0)"
      unfolding stop_if_eq by (rule TrainTrial_body_StopNow)
    show ?thesis
    proof (cases "TrainTrial_body ext row ?s0")
      case (Inl e)
      with Inr loop body show ?thesis
        by (auto simp: TrainTrial_interleaved_def TrainTrial_def split: if_splits)
    next
      case b: (Inr x)
      obtain brk ss1 where x: "x = (brk, ss1)" by (cases x)
      let ?rest = "if brk then Inr ss1 else TrainTrial_loop ext row ss1"
      have rest: "(if brk then Inr (stop_if b1 (stop_if b0 ss1))
                   else TrainTrial_loop ext row (stop_if b1 (stop_if b0 ss1))) =
                  map_sum id (stop_if (b0 \<or> b1)) ?rest"
        unfolding stop_if_twice unfolding stop_if_eq
        by (simp add: TrainTrial_loop_StopNow)
      have fin: "\<And>s. TrainTrial_finish ext (stop_if b2 (stop_if (b0 \<or> b1) s)) =
                     map_sum id (stop_if (b0 \<or> b1 \<or> b2)) (TrainTrial_finish ext s)"
        unfolding stop_if_twice unfolding stop_if_eq
        by (simp add: TrainTrial_finish_StopNow disj_assoc)
      have 1: "TrainTrial_interleaved b0 b1 b2 ext ss =
          and_then (map_sum id (stop_if (b0 \<or> b1)) ?rest)
            (\<lambda>ss2. TrainTrial_finish ext (stop_if b2 ss2))"
        using Inr b x body rest
        by (auto simp: TrainTrial_interleaved_def split: if_splits)
      have 2: "TrainTrial ext ss = and_then ?rest (TrainTrial_finish ext)"
        using Inr b x loop by (auto simp: TrainTrial_def split: if_splits)
      show ?thesis
        unfolding 1 2 by (cases ?rest) (simp_all add: fin)
    qed
  qed
qed

text \<open>
  Claim C7. A stop request set at any point after a trial begins takes effect only
  after sub-phase 1 and its statistics and log write are complete. A trial with
  \<^verbatim>\<open>Stop\<close> run at any of the three points does exactly what the trial without it
  does, both sub-phases, the statistics and the log, and ends with the flag set. The
  loops of \<^verbatim>\<open>TrainEpoch\<close> and \<^verbatim>\<open>Train\<close> read the flag after \<^verbatim>\<open>TrainTrial\<close> has
  returned: with the flag set they run one whole trial and end.
\<close>

theorem stop_takes_effect_between_trials:
  "TrainTrial_interleaved b0 b1 b2 ext ss =
     map_sum id (stop_if (b0 \<or> b1 \<or> b2)) (TrainTrial ext ss) \<and>
   TrainEpoch_loop (Suc fuel) ext curEpc (Stop ss) =
     Some (map_sum id Stop (TrainTrial ext ss)) \<and>
   Train_loop (Suc fuel) ext (Stop ss) = Some (map_sum id Stop (TrainTrial ext ss))"
proof -
  have t: "TrainTrial ext (Stop ss) = map_sum id Stop (TrainTrial ext ss)"
    using TrainTrial_StopNow [of ext "\<lambda>_. True" ss]
    by (simp add: Stop_def [abs_def])
  have "TrainEpoch_loop (Suc fuel) ext curEpc (Stop ss) =
          Some (map_sum id Stop (TrainTrial ext ss))"
    unfolding TrainEpoch_loop.simps t
    by (cases "TrainTrial ext ss") (simp_all add: Stop_def)
  moreover have "Train_loop (Suc fuel) ext (Stop ss) =
          Some (map_sum id Stop (TrainTrial ext ss))"
    unfolding Train_loop.simps t
    by (cases "TrainTrial ext ss") (simp_all add: Stop_def)
  ultimately show ?thesis
    using TrainTrial_interleaved_eq by simp
qed

section \<open>The calls a trial makes on the network\<close>

text \<open>\<open>learning_trace\<close> keeps, of a list of calls, the calls that start a sub-phase
  (\<^verbatim>\<open>InitExt\<close>, the first call of \<^verbatim>\<open>ApplyInputs\<close>) and the two learning calls.
  \<open>extends_by net net' tr\<close>: the network \<open>net'\<close> is \<open>net\<close> with more calls made, and
  the learning trace of these is \<open>tr\<close>.\<close>

definition learning_trace :: "call list \<Rightarrow> call list" where
  "learning_trace calls = filter (\<lambda>c. c = InitExt \<or> c = DWt \<or> c = WtFmDWt) calls"

definition extends_by :: "call list \<Rightarrow> call list \<Rightarrow> call list \<Rightarrow> bool" where
  "extends_by net net' tr \<longleftrightarrow> (\<exists>calls. net' = net @ calls \<and> learning_trace calls = tr)"

lemma extends_by_refl [simp]: "extends_by net net []"
  by (simp add: extends_by_def learning_trace_def)

lemma extends_by_trans:
  "extends_by a b t1 \<Longrightarrow> extends_by b c t2 \<Longrightarrow> extends_by a c (t1 @ t2)"
  by (auto simp: extends_by_def learning_trace_def)

lemma cyc_loop_eq: "cyc_loop n net = net @ replicate n Cycle"
  by (induction n arbitrary: net) (simp_all add: replicate_append_same)

lemma qtr_loop_eq:
  "qtr_loop q n net = net @ concat (replicate q (replicate n Cycle @ [QuarterFinal]))"
  by (induction q arbitrary: net) (simp_all add: cyc_loop_eq)

lemma learning_trace_quarters [simp]:
  "learning_trace (concat (replicate q (replicate n Cycle @ [QuarterFinal]))) = []"
  by (induction q) (simp_all add: learning_trace_def)

lemma AlphaCyc_extends:
  "extends_by (Net ss) (Net (AlphaCyc True ss)) [DWt, WtFmDWt]"
  unfolding extends_by_def
  by (rule exI [of _ "AlphaCycInit #
        concat (replicate 4 (replicate (nat (CycPerQtr ss)) Cycle @ [QuarterFinal])) @
        [DWt, WtFmDWt]"])
     (simp add: AlphaCyc_def Let_def qtr_loop_eq learning_trace_def
        del: replicate.simps concat_replicate_trivial)

lemma ApplyInputs_extends:
  "ApplyInputs t row ss = Inr ss' \<Longrightarrow> extends_by (Net ss) (Net ss') [InitExt]"
  by (auto simp: ApplyInputs_def Let_def and_then_eq_Inr extends_by_def learning_trace_def
      split: if_splits)

lemma capture_Net: "capture ext row ss = Inr (msz, osz, ss') \<Longrightarrow> Net ss' = Net ss"
  by (drule capture_shape) (erule ssubst, simp)

lemma TrialStats_Net: "TrialStats ext accum ss = Inr (st, ss') \<Longrightarrow> Net ss' = Net ss"
  by (drule TrialStats_shape) (erule ssubst, simp)

lemma LogEpoch_Net: "LogEpoch ext ss = Inr ss' \<Longrightarrow> Net ss' = Net ss"
  by (drule LogEpoch_shape) (erule ssubst, simp)

lemma TrainTrial_finish_Net:
  assumes "TrainTrial_finish ext ss = Inr ss'"
  shows "Net ss' = Net ss"
proof -
  from TrainTrial_finish_stats [OF assms] obtain st s2 where
    t: "TrialStats ext True ss = Inr (st, s2)" by blast
  show ?thesis
  proof (cases "Trial s2 + 1 < int (Rows (ExtReps s2))")
    case True
    from TrainTrial_finish_inside [OF assms t True] TrialStats_Net [OF t]
    show ?thesis by simp
  next
    case False
    then have "Trial s2 + 1 \<ge> int (Rows (ExtReps s2))" by simp
    from TrainTrial_finish_boundary [OF assms t this] obtain s4 where
      "LogEpoch ext (s2\<lparr>Trial := Trial s2 + 1\<rparr>) = Inr s4"
      "ss' = s4\<lparr>Trial := 0, Epoch := Epoch s4 + 1,
              Porder := fst (PermuteInts ext (Rng s4) (Porder s4)),
              Rng := snd (PermuteInts ext (Rng s4) (Porder s4))\<rparr>" by blast
    with LogEpoch_Net [of ext "s2\<lparr>Trial := Trial s2 + 1\<rparr>" s4] TrialStats_Net [OF t]
    show ?thesis by simp
  qed
qed

lemma TrainTrial_extends:
  assumes "TrainTrial ext ss = Inr ss'"
  shows "extends_by (Net ss) (Net ss') [InitExt, DWt, WtFmDWt, InitExt, DWt, WtFmDWt]"
proof -
  from assms obtain row s1 msz osz s3 st s4 s5 where
    a0: "ApplyInputs (ExtReps ss) row (ss\<lparr>AlphaCycle := 0\<rparr>) = Inr s1" and
    c: "capture ext row (AlphaCyc True s1) = Inr (msz, osz, s3)" and
    t: "TrialStats ext True s3 = Inr (st, s4)" and
    a1: "ApplyInputs (ExtReps s4) row (s4\<lparr>AlphaCycle := 1\<rparr>) = Inr s5" and
    f: "TrainTrial_finish ext (AlphaCyc True s5) = Inr ss'"
    by (rule TrainTrial_InrE)
  have 1: "extends_by (Net ss) (Net s1) [InitExt]"
    using ApplyInputs_extends [OF a0] by simp
  have 2: "extends_by (Net s1) (Net s4) [DWt, WtFmDWt]"
    using AlphaCyc_extends [of s1] capture_Net [OF c] TrialStats_Net [OF t] by simp
  have 3: "extends_by (Net s4) (Net s5) [InitExt]"
    using ApplyInputs_extends [OF a1] by simp
  have 4: "extends_by (Net s5) (Net ss') [DWt, WtFmDWt]"
    using AlphaCyc_extends [of s5] TrainTrial_finish_Net [OF f] by simp
  from extends_by_trans [OF extends_by_trans [OF extends_by_trans [OF 1 2] 3] 4]
  show ?thesis by simp
qed

text \<open>
  Claim C10. Every \<^verbatim>\<open>TrainTrial\<close> that completes settles each of its two sub-phases
  with learning on: after the \<^verbatim>\<open>InitExt\<close> that starts a sub-phase, \<^verbatim>\<open>DWt\<close> and
  \<^verbatim>\<open>WtFmDWt\<close> are each called exactly once, in both sub-phases. The field \<^verbatim>\<open>Test\<close>
  has no part in it: a trial from a state with \<^verbatim>\<open>Test\<close> set to any value is the
  trial from the state as it was, with \<^verbatim>\<open>Test\<close> set to that value at the end.
\<close>

theorem TrainTrial_learns_in_both_subphases:
  "(TrainTrial ext ss = Inr ss' \<longrightarrow>
      take (length (Net ss)) (Net ss') = Net ss \<and>
      learning_trace (drop (length (Net ss)) (Net ss')) =
        [InitExt, DWt, WtFmDWt, InitExt, DWt, WtFmDWt]) \<and>
   TrainTrial ext (ss\<lparr>Test := b\<rparr>) = map_sum id (Test_update (\<lambda>_. b)) (TrainTrial ext ss)"
  using TrainTrial_extends [of ext ss ss'] TrainTrial_Test [of ext "\<lambda>_. b" ss]
  by (auto simp: extends_by_def)


theorem TrainTrial_learns_in_both_subphases_witness:
  "Test sim_testing \<and>
   (\<exists>ss'. TrainTrial (ext_units [0] [0]) sim_testing = Inr ss' \<and>
      learning_trace (drop (length (Net sim_testing)) (Net ss')) =
        [InitExt, DWt, WtFmDWt, InitExt, DWt, WtFmDWt])"
proof -
  obtain ss' where ss': "TrainTrial (ext_units [0] [0]) sim_testing = Inr ss'"
    by (simp add: TrainTrial_def TrainTrial_loop.simps TrainTrial_body_def
        TrainTrial_finish_def ext_units_def sim_testing_def sim_start_def one_row_def
        index_def ApplyInputs_def AlphaCyc_def capture_def reset_def TrialStats_def
        LogEpoch_def LogEpoch_stats_def LogEpoch_row_def SubSpace_def SetFloat1D_def
        set_col_def SetNumRows_def log_set_def Let_def numeral_eq_Suc)
  from TrainTrial_learns_in_both_subphases [of "ext_units [0] [0]" sim_testing ss' True] ss'
  show ?thesis
    by (auto simp: sim_testing_def)
qed

section \<open>An empty pattern table\<close>

lemma Init_fields:
  "Porder (Init ext ss) = fst (rand_Perm ext (rand_Seed ext (RndSeed ss)) (Rows (ExtReps ss)))"
  "Trial (Init ext ss) = 0"
  "Sequential (Init ext ss) = Sequential ss"
  "StopNow (Init ext ss) = False"
  by (simp_all add: Init_def Let_def split_beta)

lemma OpenExtReps_fields [simp]:
  "Sequential (OpenExtReps ext ss) = Sequential ss"
  "RndSeed (OpenExtReps ext ss) = RndSeed ss"
  by (simp_all add: OpenExtReps_def split: sum.splits)

text \<open>
  Claim C9. When the pattern file fails to load, \<^verbatim>\<open>OpenExtReps\<close> logs the error and the
  run goes on with the pattern table as it was before the load. When the table on
  which the run goes on has no rows, \<^verbatim>\<open>Init\<close> draws an order over zero rows. The
  training step in random order then reads \<^verbatim>\<open>ss.Porder[ss.Trial]\<close> in the empty order
  and panics, and so does \<^verbatim>\<open>Train\<close>: no epoch boundary is reached. That
  \<^verbatim>\<open>rand.Perm(0)\<close> is empty is a fact of the Go library, taken as a hypothesis.
\<close>

theorem empty_store_first_trial_panics:
  "(OpenCSV ext (ExtReps ss) = Inl msg \<longrightarrow>
      OpenExtReps ext ss = ss\<lparr>Out := Out ss @ [msg]\<rparr>) \<and>
   (Rows (ExtReps (OpenExtReps ext ss)) = 0 \<and> \<not> Sequential ss \<and>
    fst (rand_Perm ext (rand_Seed ext (RndSeed ss)) 0) = [] \<longrightarrow>
      Porder (Init ext (OpenExtReps ext ss)) = [] \<and>
      TrainTrial ext (Init ext (OpenExtReps ext ss)) = Inl Panic \<and>
      Train (Suc fuel) ext (Init ext (OpenExtReps ext ss)) = Some (Inl Panic))"
proof (intro conjI impI)
  assume "OpenCSV ext (ExtReps ss) = Inl msg"
  then show "OpenExtReps ext ss = ss\<lparr>Out := Out ss @ [msg]\<rparr>"
    by (simp add: OpenExtReps_def)
next
  let ?s = "Init ext (OpenExtReps ext ss)"
  assume a: "Rows (ExtReps (OpenExtReps ext ss)) = 0 \<and> \<not> Sequential ss \<and>
    fst (rand_Perm ext (rand_Seed ext (RndSeed ss)) 0) = []"
  then show p: "Porder ?s = []"
    by (simp add: Init_fields)
  from a have q: "\<not> Sequential ?s"
    by (simp add: Init_fields)
  from p q show t: "TrainTrial ext ?s = Inl Panic"
    by (simp add: TrainTrial_def index_def Init_fields)
  have "?s\<lparr>StopNow := False\<rparr> = ?s"
    by (simp add: Init_fields)
  with t show "Train (Suc fuel) ext ?s = Some (Inl Panic)"
    by (simp add: Train_def)
qed

text \<open>The file cannot be opened. On a table that has no rows yet, the table stays
  without rows, the error is logged and the first trial panics. On a table that
  already holds a row, the table keeps its row and the trial runs to the epoch
  boundary.\<close>

theorem empty_store_first_trial_panics_witness:
  "OpenExtReps ext_nofile (sim_start no_rows) =
     (sim_start no_rows)\<lparr>Out := [''open goal-guy-0-5x5-25-gen.dat: no such file or directory'']\<rparr> \<and>
   Porder (Init ext_nofile (OpenExtReps ext_nofile (sim_start no_rows))) = [] \<and>
   TrainTrial ext_nofile (Init ext_nofile (OpenExtReps ext_nofile (sim_start no_rows))) =
     Inl Panic \<and>
   Train 1 ext_nofile (Init ext_nofile (OpenExtReps ext_nofile (sim_start no_rows))) =
     Some (Inl Panic) \<and>
   ExtReps (OpenExtReps ext_nofile (sim_start one_row)) = one_row \<and>
   map_sum id (\<lambda>s. (Epoch s, Trial s))
     (TrainTrial ext_nofile (Init ext_nofile (OpenExtReps ext_nofile (sim_start one_row)))) =
     Inr (1, 0)"
proof -
  have 1: "OpenCSV ext_nofile (ExtReps (sim_start no_rows)) =
      Inl ''open goal-guy-0-5x5-25-gen.dat: no such file or directory''"
    by (simp add: ext_nofile_def)
  have 2: "Out (sim_start no_rows) = []" "\<not> Sequential (sim_start no_rows)"
    "ExtReps (sim_start no_rows) = no_rows"
    by (simp_all add: sim_start_def)
  have 3: "fst (rand_Perm ext_nofile (rand_Seed ext_nofile (RndSeed (sim_start no_rows))) 0) = []"
    by (simp add: ext_nofile_def ext_units_def)
  note inst = empty_store_first_trial_panics [of ext_nofile "sim_start no_rows"
      "''open goal-guy-0-5x5-25-gen.dat: no such file or directory''" 0]
  from inst 1 2(1) have o: "OpenExtReps ext_nofile (sim_start no_rows) =
     (sim_start no_rows)\<lparr>Out := [''open goal-guy-0-5x5-25-gen.dat: no such file or directory'']\<rparr>"
    by simp
  have 4: "Rows (ExtReps (OpenExtReps ext_nofile (sim_start no_rows))) = 0"
    unfolding o by (simp add: 2(3)) (simp add: no_rows_def)
  from inst 2(2) 3 4 have
    "Porder (Init ext_nofile (OpenExtReps ext_nofile (sim_start no_rows))) = [] \<and>
     TrainTrial ext_nofile (Init ext_nofile (OpenExtReps ext_nofile (sim_start no_rows))) =
       Inl Panic \<and>
     Train 1 ext_nofile (Init ext_nofile (OpenExtReps ext_nofile (sim_start no_rows))) =
       Some (Inl Panic)"
    by simp
  moreover have "ExtReps (OpenExtReps ext_nofile (sim_start one_row)) = one_row"
    by (simp add: OpenExtReps_def ext_nofile_def sim_start_def)
  moreover have "map_sum id (\<lambda>s. (Epoch s, Trial s))
     (TrainTrial ext_nofile (Init ext_nofile (OpenExtReps ext_nofile (sim_start one_row)))) =
     Inr (1, 0)"
    by code_simp
  ultimately show ?thesis using o by blast
qed

text \<open>As the claim is worded, the training step on an empty table does not fail and
  gives an epoch boundary at once. On the table without rows, after the failed load
  and \<^verbatim>\<open>Init\<close>, the order of presentation is empty, the first \<^verbatim>\<open>TrainTrial\<close> is a
  panic and so is \<^verbatim>\<open>Train\<close>; no row is written to the epoch log.\<close>

theorem empty_store_no_epoch_boundary:
  "Rows (ExtReps (sim_start no_rows)) = 0 \<and>
   Rows (ExtReps (Init ext_nofile (OpenExtReps ext_nofile (sim_start no_rows)))) = 0 \<and>
   Porder (Init ext_nofile (OpenExtReps ext_nofile (sim_start no_rows))) = [] \<and>
   Epoch (Init ext_nofile (OpenExtReps ext_nofile (sim_start no_rows))) = 0 \<and>
   TrainTrial ext_nofile (Init ext_nofile (OpenExtReps ext_nofile (sim_start no_rows))) =
     Inl Panic \<and>
   Train 1 ext_nofile (Init ext_nofile (OpenExtReps ext_nofile (sim_start no_rows))) =
     Some (Inl Panic)"
  by (simp add: ext_nofile_def ext_units_def no_rows_def sim_start_def OpenExtReps_def
      Init_def TrainTrial_def Train_def index_def Let_def)

section \<open>The pattern table during a trial\<close>

text \<open>\<open>overwrite off av vals\<close> is \<open>vals\<close> with the cells from \<open>off\<close> on replaced by
  \<open>av\<close>: what the capture loop leaves when all its writes are inside the tensor.\<close>

definition overwrite :: "nat \<Rightarrow> real list \<Rightarrow> real list \<Rightarrow> real list" where
  "overwrite off av vals = take off vals @ av @ drop (off + length av) vals"


lemma capture_loop_length:
  "capture_loop off av vals = Inr vals' \<Longrightarrow> length vals' = length vals"
proof (induction av arbitrary: off vals)
  case Nil
  then show ?case by simp
next
  case (Cons v av)
  then obtain vals1 where 1: "SetFloat1D off v vals = Inr vals1"
    and 2: "capture_loop (off + 1) av vals1 = Inr vals'"
    by (auto simp: and_then_eq_Inr)
  from Cons.IH [OF 2] SetFloat1D_nth [OF 1] show ?case by simp
qed


lemma capture_loop_Inr:
  "capture_loop off av vals = Inr vals' \<Longrightarrow> vals' = overwrite (nat off) av vals"
proof (induction av arbitrary: off vals)
  case Nil
  then show ?case by (simp add: overwrite_def)
next
  case (Cons v av)
  let ?n = "nat off"
  from Cons.prems obtain vals1 where 1: "SetFloat1D off v vals = Inr vals1"
    and 2: "capture_loop (off + 1) av vals1 = Inr vals'"
    by (auto simp: and_then_eq_Inr)
  from 1 have r: "0 \<le> off" "?n < length vals" and v1: "vals1 = vals[?n := v]"
    by (auto simp: SetFloat1D_def split: if_splits)
  have n1: "nat (off + 1) = Suc ?n" using r by simp
  have "vals' = overwrite (nat (off + 1)) av (vals[?n := v])"
    using Cons.IH [OF 2] v1 by simp
  also have "\<dots> = overwrite ?n (v # av) vals"
    unfolding n1 overwrite_def using r(2)
    by (simp add: take_Suc_conv_app_nth)
  finally show ?case .
qed

lemma Cols_set_col [simp]:
  "Cols (set_col l vals t) l' = (if l' = l then (Cols t l)\<lparr>Values := vals\<rparr> else Cols t l')"
  "Rows (set_col l vals t) = Rows t"
  by (simp_all add: set_col_def)

lemma capture_table:
  assumes "capture ext row ss = Inr (msz, osz, ss')"
  shows "Rows (ExtReps ss') = Rows (ExtReps ss)"
    and "Cols (ExtReps ss') Context = Cols (ExtReps ss) Context"
    and "Cols (ExtReps ss') Goal = Cols (ExtReps ss) Goal"
    and "CellSize (Cols (ExtReps ss') l) = CellSize (Cols (ExtReps ss) l)"
    and "length (Values (Cols (ExtReps ss') l)) = length (Values (Cols (ExtReps ss) l))"
  using assms
  by (auto simp: capture_def Let_def split_beta and_then_eq_Inr
      dest: capture_loop_length split: if_splits)

lemma capture_values:
  assumes "capture ext row ss = Inr (msz, osz, ss')"
    and "l = Motor \<or> l = Outcome"
    and "UnitVals ext (Net ss) l = (av, False)"
  shows "Values (Cols (ExtReps ss') l) =
           overwrite (nat (row * int (CellSize (Cols (ExtReps ss) l)))) av
             (Values (Cols (ExtReps ss) l))"
  using assms
  by (auto simp: capture_def Let_def split_beta and_then_eq_Inr
      dest!: capture_loop_Inr split: if_splits)

lemma TrainTrial_body_clears_nothing:
  assumes "1 \<le> AlphaCycle ss" and "TrainTrial_body ext row ss = Inr (brk, ss')"
  shows "brk \<and> ExtReps ss' = ExtReps ss"
proof -
  from assms(2) obtain ss1 where a: "ApplyInputs (ExtReps ss) row ss = Inr ss1"
    by (auto simp: TrainTrial_body_def and_then_eq_Inr)
  with assms(1) have 1: "1 \<le> AlphaCycle (AlphaCyc True ss1)"
    by (simp add: ApplyInputs_AlphaCycle)
  with a assms(2) have "brk" "ss' = AlphaCyc True ss1"
    by (auto simp: TrainTrial_body_def Let_def)
  with ApplyInputs_shape [OF a] show ?thesis
    by (simp add: AlphaCyc_def Let_def) (erule ssubst, simp)
qed

lemma ApplyInputs_ExtReps: "ApplyInputs t row ss = Inr ss' \<Longrightarrow> ExtReps ss' = ExtReps ss"
  by (drule ApplyInputs_shape) (erule ssubst, simp)

lemma AlphaCyc_ExtReps [simp]: "ExtReps (AlphaCyc b ss) = ExtReps ss"
  by (simp add: AlphaCyc_def Let_def)

lemma TrialStats_ExtReps: "TrialStats ext accum ss = Inr (st, ss') \<Longrightarrow> ExtReps ss' = ExtReps ss"
  by (drule TrialStats_shape) (erule ssubst, simp)

lemma LogEpoch_ExtReps: "LogEpoch ext ss = Inr ss' \<Longrightarrow> ExtReps ss' = ExtReps ss"
  by (drule LogEpoch_shape) (erule ssubst, simp)

lemma TrainTrial_finish_ExtReps:
  assumes "TrainTrial_finish ext ss = Inr ss'"
  shows "ExtReps ss' = ExtReps ss"
proof -
  from TrainTrial_finish_stats [OF assms] obtain st s2 where
    t: "TrialStats ext True ss = Inr (st, s2)" by blast
  show ?thesis
  proof (cases "Trial s2 + 1 < int (Rows (ExtReps s2))")
    case True
    from TrainTrial_finish_inside [OF assms t True] TrialStats_ExtReps [OF t]
    show ?thesis by simp
  next
    case False
    then have "Trial s2 + 1 \<ge> int (Rows (ExtReps s2))" by simp
    from TrainTrial_finish_boundary [OF assms t this] obtain s4 where
      "LogEpoch ext (s2\<lparr>Trial := Trial s2 + 1\<rparr>) = Inr s4"
      "ss' = s4\<lparr>Trial := 0, Epoch := Epoch s4 + 1,
              Porder := fst (PermuteInts ext (Rng s4) (Porder s4)),
              Rng := snd (PermuteInts ext (Rng s4) (Porder s4))\<rparr>" by blast
    with LogEpoch_ExtReps [of ext "s2\<lparr>Trial := Trial s2 + 1\<rparr>" s4] TrialStats_ExtReps [OF t]
    show ?thesis by simp
  qed
qed

lemma TrainTrial_ExtReps:
  assumes "TrainTrial ext ss = Inr ss'"
  obtains row s1 msz osz s3 where
    "(if \<not> Sequential ss then index (Porder ss) (Trial ss) else Inr (Trial ss)) = Inr row"
    "ApplyInputs (ExtReps ss) row (ss\<lparr>AlphaCycle := 0\<rparr>) = Inr s1"
    "capture ext row (AlphaCyc True s1) = Inr (msz, osz, s3)"
    "ExtReps ss' = ExtReps s3"
proof -
  from assms obtain row s1 msz osz s3 st s4 s5 where
    r: "(if \<not> Sequential ss then index (Porder ss) (Trial ss) else Inr (Trial ss)) = Inr row" and
    a0: "ApplyInputs (ExtReps ss) row (ss\<lparr>AlphaCycle := 0\<rparr>) = Inr s1" and
    c: "capture ext row (AlphaCyc True s1) = Inr (msz, osz, s3)" and
    t: "TrialStats ext True s3 = Inr (st, s4)" and
    a1: "ApplyInputs (ExtReps s4) row (s4\<lparr>AlphaCycle := 1\<rparr>) = Inr s5" and
    f: "TrainTrial_finish ext (AlphaCyc True s5) = Inr ss'"
    by (rule TrainTrial_InrE)
  have "ExtReps ss' = ExtReps s3"
    using TrainTrial_finish_ExtReps [OF f] ApplyInputs_ExtReps [OF a1] TrialStats_ExtReps [OF t]
    by simp
  with r a0 c that show thesis by blast
qed

text \<open>
  Claim C1. After the clearing block of sub-phase 1 the motor and outcome cells of the
  presented row are to hold their authored values again, so that the row gives the
  same inputs in every epoch. The clearing block is the pair of loops
  \<^verbatim>\<open>for j := 0; j < msz; j++\<close> and \<^verbatim>\<open>for j := 0; j < osz; j++\<close> under
  \<^verbatim>\<open>if ss.AlphaCycle >= 1\<close>. The sizes are declared by \<^verbatim>\<open>var msz, osz int\<close> inside the
  body of the loop over the sub-phases and are set only when \<^verbatim>\<open>AlphaCycle\<close> is 0, so
  they are 0 in every pass that reaches the block: such a pass leaves the pattern
  table as it found it. After a completed trial the motor and outcome cells of the row
  therefore still hold the activity that was captured after sub-phase 0, whenever the
  read of that activity gave no error.
\<close>

theorem TrainTrial_leaves_captured_activity:
  "(1 \<le> AlphaCycle s \<and> TrainTrial_body ext r s = Inr (brk, s') \<longrightarrow>
      brk \<and> ExtReps s' = ExtReps s) \<and>
   (TrainTrial ext ss = Inr ss' \<longrightarrow>
      (\<exists>row s1.
         (if \<not> Sequential ss then index (Porder ss) (Trial ss) else Inr (Trial ss)) = Inr row \<and>
         ApplyInputs (ExtReps ss) row (ss\<lparr>AlphaCycle := 0\<rparr>) = Inr s1 \<and>
         (\<forall>l av. (l = Motor \<or> l = Outcome) \<and>
              UnitVals ext (Net (AlphaCyc True s1)) l = (av, False) \<longrightarrow>
            Values (Cols (ExtReps ss') l) =
              overwrite (nat (row * int (CellSize (Cols (ExtReps ss) l)))) av
                (Values (Cols (ExtReps ss) l)))))"
proof (intro conjI impI)
  assume "1 \<le> AlphaCycle s \<and> TrainTrial_body ext r s = Inr (brk, s')"
  then show "brk" "ExtReps s' = ExtReps s"
    using TrainTrial_body_clears_nothing [of s ext r brk s'] by simp_all
next
  assume "TrainTrial ext ss = Inr ss'"
  then obtain row s1 msz osz s3 where
    r: "(if \<not> Sequential ss then index (Porder ss) (Trial ss) else Inr (Trial ss)) = Inr row" and
    a0: "ApplyInputs (ExtReps ss) row (ss\<lparr>AlphaCycle := 0\<rparr>) = Inr s1" and
    c: "capture ext row (AlphaCyc True s1) = Inr (msz, osz, s3)" and
    e: "ExtReps ss' = ExtReps s3"
    by (rule TrainTrial_ExtReps)
  have 1: "ExtReps (AlphaCyc True s1) = ExtReps ss"
    using ApplyInputs_ExtReps [OF a0] by simp
  have "Values (Cols (ExtReps ss') l) =
          overwrite (nat (row * int (CellSize (Cols (ExtReps ss) l)))) av
            (Values (Cols (ExtReps ss) l))"
    if "(l = Motor \<or> l = Outcome) \<and> UnitVals ext (Net (AlphaCyc True s1)) l = (av, False)"
    for l av
    using capture_values [OF c, of l av] that e 1 by simp
  with r a0 show "\<exists>row s1.
         (if \<not> Sequential ss then index (Porder ss) (Trial ss) else Inr (Trial ss)) = Inr row \<and>
         ApplyInputs (ExtReps ss) row (ss\<lparr>AlphaCycle := 0\<rparr>) = Inr s1 \<and>
         (\<forall>l av. (l = Motor \<or> l = Outcome) \<and>
              UnitVals ext (Net (AlphaCyc True s1)) l = (av, False) \<longrightarrow>
            Values (Cols (ExtReps ss') l) =
              overwrite (nat (row * int (CellSize (Cols (ExtReps ss) l)))) av
                (Values (Cols (ExtReps ss) l)))"
    by blast
qed

text \<open>A table of one row with the authored motor cell 0 and outcome cell 1, and a
  network whose produced activity is 0.5 in every layer. The pass of sub-phase 1
  leaves the table as it is, and after the trial both cells hold 0.5.\<close>

theorem TrainTrial_leaves_captured_activity_witness:
  "Values (Cols (ExtReps sim_ready) Motor) = [0] \<and>
   Values (Cols (ExtReps sim_ready) Outcome) = [1] \<and>
   (\<exists>brk s'. TrainTrial_body (ext_units [0] [0]) 0 (sim_ready\<lparr>AlphaCycle := 1\<rparr>) =
        Inr (brk, s') \<and> brk \<and> ExtReps s' = ExtReps sim_ready) \<and>
   (\<exists>ss'. TrainTrial (ext_units [0] [0]) sim_ready = Inr ss' \<and>
      Values (Cols (ExtReps ss') Motor) = [1/2] \<and>
      Values (Cols (ExtReps ss') Outcome) = [1/2])"
proof -
  let ?ext = "ext_units [0] [0]"
  have v: "Values (Cols (ExtReps sim_ready) Motor) = [0]"
    "Values (Cols (ExtReps sim_ready) Outcome) = [1]"
    "CellSize (Cols (ExtReps sim_ready) Motor) = 1"
    "CellSize (Cols (ExtReps sim_ready) Outcome) = 1"
    by (simp_all add: sim_ready_def sim_start_def one_row_def)
  have "\<not> isl (TrainTrial_body ?ext 0 (sim_ready\<lparr>AlphaCycle := 1\<rparr>))"
    by code_simp
  then obtain brk s' where
    b: "TrainTrial_body ?ext 0 (sim_ready\<lparr>AlphaCycle := 1\<rparr>) = Inr (brk, s')"
    by (cases "TrainTrial_body ?ext 0 (sim_ready\<lparr>AlphaCycle := 1\<rparr>)") auto
  have "\<not> isl (TrainTrial ?ext sim_ready)"
    by code_simp
  then obtain ss' where t: "TrainTrial ?ext sim_ready = Inr ss'"
    by (cases "TrainTrial ?ext sim_ready") auto
  note inst = TrainTrial_leaves_captured_activity
    [of "sim_ready\<lparr>AlphaCycle := 1\<rparr>" ?ext 0 brk s' sim_ready ss']
  from inst b have 1: "brk \<and> ExtReps s' = ExtReps sim_ready"
    by simp
  from inst t obtain row s1 where
    r: "(if \<not> Sequential sim_ready then index (Porder sim_ready) (Trial sim_ready)
         else Inr (Trial sim_ready)) = Inr row" and
    w: "\<And>l av. (l = Motor \<or> l = Outcome) \<and>
            UnitVals ?ext (Net (AlphaCyc True s1)) l = (av, False) \<Longrightarrow>
          Values (Cols (ExtReps ss') l) =
            overwrite (nat (row * int (CellSize (Cols (ExtReps sim_ready) l)))) av
              (Values (Cols (ExtReps sim_ready) l))"
    by blast
  from r have row: "row = 0"
    by (simp add: sim_ready_def sim_start_def index_def)
  have u: "UnitVals ?ext (Net (AlphaCyc True s1)) l = ([1/2], False)" for l
    by (simp add: ext_units_def)
  from w [of Motor "[1/2]"] w [of Outcome "[1/2]"] u
  have "Values (Cols (ExtReps ss') Motor) = [1/2]" "Values (Cols (ExtReps ss') Outcome) = [1/2]"
    by (simp_all add: row v overwrite_def)
  with v(1,2) b 1 t show ?thesis
    by blast
qed


text \<open>As the claim is worded, the motor and outcome cells of the row hold their
  authored values after the trial, and the row gives the same inputs in two epochs.
  With authored motor 0 and outcome 1 and a produced activity of 0.5, both cells hold
  0.5 after the trial, and the outcome target of sub-phase 0 is 1 in the first epoch
  and 0.5 in the second.\<close>

theorem captured_activity_stays_in_store:
  "pattern_row Motor 0 sim_ready = Inr [0] \<and>
   pattern_row Outcome 0 sim_ready = Inr [1] \<and>
   and_then (TrainTrial (ext_units [0] [0]) sim_ready) (pattern_row Motor 0) = Inr [1/2] \<and>
   and_then (TrainTrial (ext_units [0] [0]) sim_ready) (pattern_row Outcome 0) = Inr [1/2] \<and>
   and_then (and_then (TrainTrial (ext_units [0] [0]) sim_ready)
               (TrainTrial (ext_units [0] [0]))) outcome_clamps =
     Inr [ApplyExt Outcome [1], ApplyExt Outcome [1/2]]"
  by code_simp

section \<open>A failed read of the produced activity\<close>












lemma ApplyInputs_Epoch: "ApplyInputs t row ss = Inr ss' \<Longrightarrow> Epoch ss' = Epoch ss"
  by (drule ApplyInputs_shape) (erule ssubst, simp)

lemma capture_Epoch: "capture ext row ss = Inr (msz, osz, ss') \<Longrightarrow> Epoch ss' = Epoch ss"
  by (drule capture_shape) (erule ssubst, simp)

lemma TrialStats_Epoch: "TrialStats ext accum ss = Inr (st, ss') \<Longrightarrow> Epoch ss' = Epoch ss"
  by (drule TrialStats_shape) (erule ssubst, simp)

lemma AlphaCyc_Epoch [simp]: "Epoch (AlphaCyc b ss) = Epoch ss"
  by (simp add: AlphaCyc_def Let_def)








section \<open>The sums of an epoch\<close>

text \<open>\<open>trials k ext ss\<close> is the state after \<open>k\<close> calls of \<^verbatim>\<open>TrainTrial\<close> in a row, as
  \<^verbatim>\<open>TrainEpoch\<close>, \<^verbatim>\<open>Train\<close> and the step button make them. \<open>subphase0_stats ext ss\<close> is
  what \<^verbatim>\<open>TrialStats(true)\<close> returns in sub-phase 0 of the trial that starts in \<open>ss\<close>,
  and \<open>trial_osse ext ss k\<close> is its outcome error \<^verbatim>\<open>osse\<close> for trial number \<open>k\<close> after
  \<open>ss\<close>.\<close>

fun trials :: "nat \<Rightarrow> extern \<Rightarrow> Sim \<Rightarrow> error + Sim" where
  "trials 0 ext ss = Inr ss"
| "trials (Suc k) ext ss = and_then (trials k ext ss) (TrainTrial ext)"

definition subphase0_stats :: "extern \<Rightarrow> Sim \<Rightarrow> error + stats" where
  "subphase0_stats ext ss =
     and_then (if \<not> Sequential ss then index (Porder ss) (Trial ss) else Inr (Trial ss))
       (\<lambda>row.
          and_then (ApplyInputs (ExtReps ss) row (ss\<lparr>AlphaCycle := 0\<rparr>)) (\<lambda>ss1.
          and_then (capture ext row (AlphaCyc True ss1)) (\<lambda>(msz, osz, ss3).
          and_then (TrialStats ext True ss3) (\<lambda>(st, ss4). Inr st))))"

definition trial_osse :: "extern \<Rightarrow> Sim \<Rightarrow> nat \<Rightarrow> real" where
  "trial_osse ext ss k =
     (case and_then (trials k ext ss) (subphase0_stats ext) of
        Inl e \<Rightarrow> 0
      | Inr st \<Rightarrow> osse st)"

lemma TrialStats_OutSumSSE_0:
  "TrialStats ext True ss = Inr (st, ss') \<Longrightarrow> AlphaCycle ss = 0 \<Longrightarrow>
     OutSumSSE ss' = OutSumSSE ss + osse st"
  by (cases "oge_loop (Finite (1/2)) (ActM ext (Net ss) Goal) (ActM ext (Net ss) Outcome) (Finite 0)")
     (auto simp: TrialStats_def Let_def split_beta split: if_splits)

lemma TrialStats_OutSumSSE_1:
  "TrialStats ext accum ss = Inr (st, ss') \<Longrightarrow> AlphaCycle ss = 1 \<Longrightarrow>
     OutSumSSE ss' = OutSumSSE ss"
  by (auto simp: TrialStats_def Let_def split_beta)

lemma TrialStats_Trial: "TrialStats ext accum ss = Inr (st, ss') \<Longrightarrow> Trial ss' = Trial ss"
  by (drule TrialStats_shape) (erule ssubst, simp)

lemma ApplyInputs_core:
  assumes "ApplyInputs t row ss = Inr ss'"
  shows "OutSumSSE ss' = OutSumSSE ss" "Trial ss' = Trial ss"
  using arg_cong [OF ApplyInputs_shape [OF assms], of OutSumSSE]
    arg_cong [OF ApplyInputs_shape [OF assms], of Trial]
  by simp_all

lemma capture_core:
  assumes "capture ext row ss = Inr (msz, osz, ss')"
  shows "OutSumSSE ss' = OutSumSSE ss" "Trial ss' = Trial ss"
  using arg_cong [OF capture_shape [OF assms], of OutSumSSE]
    arg_cong [OF capture_shape [OF assms], of Trial]
  by simp_all

lemma AlphaCyc_core [simp]:
  "OutSumSSE (AlphaCyc b ss) = OutSumSSE ss" "Trial (AlphaCyc b ss) = Trial ss"
  by (simp_all add: AlphaCyc_def Let_def)

lemma LogEpoch_OutSSE:
  assumes "LogEpoch ext ss = Inr ss'"
  shows "EpcLog ss' ''OutSSE'' ! nat (Epoch ss) = OutSumSSE ss / real (Rows (ExtReps ss))"
    and "OutSumSSE ss' = 0" and "Epoch ss' = Epoch ss" and "ExtReps ss' = ExtReps ss"
proof -
  have "EpcOutSSE (LogEpoch_stats ss) = OutSumSSE ss / real (Rows (ExtReps ss))"
    by (simp add: LogEpoch_stats_def Let_def)
  then have "(''OutSSE'', OutSumSSE ss / real (Rows (ExtReps ss)))
      \<in> set (LogEpoch_row ext (LogEpoch_stats ss))"
    by (simp add: LogEpoch_row_def)
  from LogEpoch_cell [OF assms this]
  show "EpcLog ss' ''OutSSE'' ! nat (Epoch ss) = OutSumSSE ss / real (Rows (ExtReps ss))" .
  show "OutSumSSE ss' = 0" "Epoch ss' = Epoch ss" "ExtReps ss' = ExtReps ss"
    using arg_cong [OF LogEpoch_shape [OF assms], of OutSumSSE]
      arg_cong [OF LogEpoch_shape [OF assms], of Epoch]
      arg_cong [OF LogEpoch_shape [OF assms], of ExtReps]
    by simp_all
qed

lemma TrainTrial_OutSumSSE:
  assumes "TrainTrial ext ss = Inr ss'"
  shows "\<exists>st. subphase0_stats ext ss = Inr st \<and>
    Rows (ExtReps ss') = Rows (ExtReps ss) \<and>
    (if Trial ss + 1 < int (Rows (ExtReps ss))
     then OutSumSSE ss' = OutSumSSE ss + osse st \<and> Trial ss' = Trial ss + 1 \<and>
          Epoch ss' = Epoch ss
     else EpcLog ss' ''OutSSE'' ! nat (Epoch ss) =
            (OutSumSSE ss + osse st) / real (Rows (ExtReps ss)) \<and>
          OutSumSSE ss' = 0 \<and> Trial ss' = 0 \<and> Epoch ss' = Epoch ss + 1)"
proof -
  from assms obtain row s1 msz osz s3 st s4 s5 where
    r: "(if \<not> Sequential ss then index (Porder ss) (Trial ss) else Inr (Trial ss)) = Inr row" and
    a0: "ApplyInputs (ExtReps ss) row (ss\<lparr>AlphaCycle := 0\<rparr>) = Inr s1" and
    c: "capture ext row (AlphaCyc True s1) = Inr (msz, osz, s3)" and
    t: "TrialStats ext True s3 = Inr (st, s4)" and
    a1: "ApplyInputs (ExtReps s4) row (s4\<lparr>AlphaCycle := 1\<rparr>) = Inr s5" and
    f: "TrainTrial_finish ext (AlphaCyc True s5) = Inr ss'"
    by (rule TrainTrial_InrE)
  have s0: "subphase0_stats ext ss = Inr st"
    by (simp add: subphase0_stats_def r a0 c t)
  have rows: "Rows (ExtReps ss') = Rows (ExtReps ss)"
    using TrainTrial_finish_ExtReps [OF f] ApplyInputs_ExtReps [OF a1] TrialStats_ExtReps [OF t]
      capture_table(1) [OF c] ApplyInputs_ExtReps [OF a0]
    by simp
  have ac3: "AlphaCycle s3 = 0"
    using capture_AlphaCycle [OF c] ApplyInputs_AlphaCycle [OF a0] by simp
  have sum4: "OutSumSSE s4 = OutSumSSE ss + osse st"
    using TrialStats_OutSumSSE_0 [OF t ac3] capture_core(1) [OF c] ApplyInputs_core(1) [OF a0]
    by simp
  have tr4: "Trial s4 = Trial ss"
    using TrialStats_Trial [OF t] capture_core(2) [OF c] ApplyInputs_core(2) [OF a0]
    by simp
  have ep4: "Epoch s4 = Epoch ss"
    using TrialStats_Epoch [OF t] capture_Epoch [OF c] ApplyInputs_Epoch [OF a0]
    by simp
  have x4: "Rows (ExtReps s4) = Rows (ExtReps ss)"
    using TrialStats_ExtReps [OF t] capture_table(1) [OF c] ApplyInputs_ExtReps [OF a0]
    by simp
  let ?s5 = "AlphaCyc True s5"
  have ac5: "AlphaCycle ?s5 = 1"
    using ApplyInputs_AlphaCycle [OF a1] by simp
  from TrainTrial_finish_stats [OF f] obtain st1 s6 where
    t1: "TrialStats ext True ?s5 = Inr (st1, s6)" by blast
  have sum6: "OutSumSSE s6 = OutSumSSE ss + osse st"
    using TrialStats_OutSumSSE_1 [OF t1 ac5] ApplyInputs_core(1) [OF a1] sum4 by simp
  have tr6: "Trial s6 = Trial ss"
    using TrialStats_Trial [OF t1] ApplyInputs_core(2) [OF a1] tr4 by simp
  have ep6: "Epoch s6 = Epoch ss"
    using TrialStats_Epoch [OF t1] ApplyInputs_Epoch [OF a1] ep4 by simp
  have x6: "Rows (ExtReps s6) = Rows (ExtReps ss)"
    using TrialStats_ExtReps [OF t1] ApplyInputs_ExtReps [OF a1] x4 by simp
  show ?thesis
  proof (cases "Trial ss + 1 < int (Rows (ExtReps ss))")
    case True
    with tr6 x6 have "Trial s6 + 1 < int (Rows (ExtReps s6))" by simp
    from TrainTrial_finish_inside [OF f t1 this] sum6 tr6 ep6 True s0 rows
    show ?thesis by simp
  next
    case False
    with tr6 x6 have "Trial s6 + 1 \<ge> int (Rows (ExtReps s6))" by simp
    from TrainTrial_finish_boundary [OF f t1 this] obtain s7 where
      l: "LogEpoch ext (s6\<lparr>Trial := Trial s6 + 1\<rparr>) = Inr s7" and
      ss': "ss' = s7\<lparr>Trial := 0, Epoch := Epoch s7 + 1,
              Porder := fst (PermuteInts ext (Rng s7) (Porder s7)),
              Rng := snd (PermuteInts ext (Rng s7) (Porder s7))\<rparr>" by blast
    from LogEpoch_OutSSE [OF l] sum6 ep6 x6 ss' False s0 rows
    show ?thesis by simp
  qed
qed


lemma trial_osse_at:
  "trials k ext ss = Inr sk \<Longrightarrow> subphase0_stats ext sk = Inr st \<Longrightarrow>
     trial_osse ext ss k = osse st"
  by (simp add: trial_osse_def)

lemma trials_within_epoch:
  assumes "Trial ss = 0"
  shows "trials k ext ss = Inr sk \<Longrightarrow> k < Rows (ExtReps ss) \<Longrightarrow>
     Trial sk = int k \<and> Epoch sk = Epoch ss \<and> Rows (ExtReps sk) = Rows (ExtReps ss) \<and>
     OutSumSSE sk = OutSumSSE ss + (\<Sum>j<k. trial_osse ext ss j)"
proof (induction k arbitrary: sk)
  case 0
  with assms show ?case by simp
next
  case (Suc k)
  from Suc.prems(1) obtain s where
    s: "trials k ext ss = Inr s" and t: "TrainTrial ext s = Inr sk"
    by (auto simp: and_then_eq_Inr)
  from Suc.IH [OF s] Suc.prems(2) have
    ih: "Trial s = int k" "Epoch s = Epoch ss" "Rows (ExtReps s) = Rows (ExtReps ss)"
      "OutSumSSE s = OutSumSSE ss + (\<Sum>j<k. trial_osse ext ss j)"
    by simp_all
  from TrainTrial_OutSumSSE [OF t] obtain st where
    st: "subphase0_stats ext s = Inr st" and
    rows: "Rows (ExtReps sk) = Rows (ExtReps s)" and
    step: "if Trial s + 1 < int (Rows (ExtReps s))
     then OutSumSSE sk = OutSumSSE s + osse st \<and> Trial sk = Trial s + 1 \<and>
          Epoch sk = Epoch s
     else EpcLog sk ''OutSSE'' ! nat (Epoch s) =
            (OutSumSSE s + osse st) / real (Rows (ExtReps s)) \<and>
          OutSumSSE sk = 0 \<and> Trial sk = 0 \<and> Epoch sk = Epoch s + 1"
    by blast
  have "Trial s + 1 < int (Rows (ExtReps s))"
    using ih(1,3) Suc.prems(2) by simp
  with step have "OutSumSSE sk = OutSumSSE s + osse st" "Trial sk = Trial s + 1"
    "Epoch sk = Epoch s"
    by simp_all
  with ih rows trial_osse_at [OF s st] show ?case
    by simp
qed

lemma trials_epoch_log:
  assumes "Trial ss = 0"
    and "Rows (ExtReps ss) = N" and "1 \<le> N"
    and "trials N ext ss = Inr ss'"
  shows "EpcLog ss' ''OutSSE'' ! nat (Epoch ss) =
           (OutSumSSE ss + (\<Sum>k<N. trial_osse ext ss k)) / real N \<and>
         Epoch ss' = Epoch ss + 1 \<and> Trial ss' = 0 \<and> OutSumSSE ss' = 0 \<and>
         Rows (ExtReps ss') = N"
proof -
  from assms(3) obtain k where N: "N = Suc k" by (cases N) auto
  with assms(4) obtain s where
    s: "trials k ext ss = Inr s" and t: "TrainTrial ext s = Inr ss'"
    by (auto simp: and_then_eq_Inr)
  from trials_within_epoch [OF assms(1) s] assms(2) N have
    ih: "Trial s = int k" "Epoch s = Epoch ss" "Rows (ExtReps s) = N"
      "OutSumSSE s = OutSumSSE ss + (\<Sum>j<k. trial_osse ext ss j)"
    by simp_all
  from TrainTrial_OutSumSSE [OF t] obtain st where
    st: "subphase0_stats ext s = Inr st" and
    rows: "Rows (ExtReps ss') = Rows (ExtReps s)" and
    step: "if Trial s + 1 < int (Rows (ExtReps s))
     then OutSumSSE ss' = OutSumSSE s + osse st \<and> Trial ss' = Trial s + 1 \<and>
          Epoch ss' = Epoch s
     else EpcLog ss' ''OutSSE'' ! nat (Epoch s) =
            (OutSumSSE s + osse st) / real (Rows (ExtReps s)) \<and>
          OutSumSSE ss' = 0 \<and> Trial ss' = 0 \<and> Epoch ss' = Epoch s + 1"
    by blast
  have "\<not> Trial s + 1 < int (Rows (ExtReps s))"
    using ih(1,3) N by simp
  with step have "EpcLog ss' ''OutSSE'' ! nat (Epoch s) =
            (OutSumSSE s + osse st) / real (Rows (ExtReps s))"
    "OutSumSSE ss' = 0" "Trial ss' = 0" "Epoch ss' = Epoch s + 1"
    by simp_all
  moreover have "OutSumSSE ss + (\<Sum>j<N. trial_osse ext ss j) = OutSumSSE s + osse st"
    using ih(4) trial_osse_at [OF s st] N by simp
  ultimately show ?thesis
    using ih rows by simp
qed

lemma TrainTrial_keeps_StopNow:
  assumes "TrainTrial ext ss = Inr ss'"
  shows "StopNow ss' = StopNow ss"
proof -
  have e: "StopNow_update (\<lambda>_. StopNow ss) ss = ss"
    by simp
  have "TrainTrial ext ss = map_sum id (StopNow_update (\<lambda>_. StopNow ss)) (TrainTrial ext ss)"
    using TrainTrial_StopNow [of ext "\<lambda>_. StopNow ss" ss] unfolding e .
  then have "Inr ss' = map_sum id (StopNow_update (\<lambda>_. StopNow ss)) (Inr ss' :: error + Sim)"
    unfolding assms .
  then have "ss' = ss'\<lparr>StopNow := StopNow ss\<rparr>"
    by simp
  from arg_cong [OF this, of StopNow] show ?thesis
    by simp
qed

lemma trials_prefix:
  "trials n ext ss = Inr ss' \<Longrightarrow> k \<le> n \<Longrightarrow> \<exists>sk. trials k ext ss = Inr sk"
proof (induction n arbitrary: ss')
  case 0
  then show ?case by simp
next
  case (Suc n)
  from Suc.prems(1) obtain s where s: "trials n ext ss = Inr s"
    by (auto simp: and_then_eq_Inr)
  show ?case
  proof (cases "k = Suc n")
    case True
    with Suc.prems(1) show ?thesis by blast
  next
    case False
    with Suc.prems(2) have "k \<le> n" by simp
    from Suc.IH [OF s this] show ?thesis .
  qed
qed

lemma trials_keep_StopNow:
  "trials k ext ss = Inr sk \<Longrightarrow> StopNow sk = StopNow ss"
proof (induction k arbitrary: sk)
  case 0
  then show ?case by simp
next
  case (Suc k)
  then obtain s where "trials k ext ss = Inr s" "TrainTrial ext s = Inr sk"
    by (auto simp: and_then_eq_Inr)
  with Suc.IH [of s] TrainTrial_keeps_StopNow [of ext s sk] show ?case by simp
qed

lemma TrainEpoch_loop_trials:
  assumes start: "Trial ss = 0" "\<not> StopNow ss"
    and N: "Rows (ExtReps ss) = N"
    and all: "trials N ext ss = Inr ss'"
    and epoch: "Epoch ss' = Epoch ss + 1"
  shows "k + d = N \<Longrightarrow> 0 < d \<Longrightarrow> trials k ext ss = Inr sk \<Longrightarrow>
           TrainEpoch_loop d ext (Epoch ss) sk = Some (Inr ss')"
proof (induction d arbitrary: k sk)
  case 0
  then show ?case by simp
next
  case (Suc d)
  from Suc.prems(1) have "Suc k \<le> N" by simp
  from trials_prefix [OF all this] obtain s' where s': "trials (Suc k) ext ss = Inr s'"
    by blast
  with Suc.prems(3) have t: "TrainTrial ext sk = Inr s'" by simp
  show ?case
  proof (cases "d = 0")
    case True
    with Suc.prems(1) s' all have "s' = ss'" by simp
    with t epoch show ?thesis by simp
  next
    case False
    with Suc.prems(1) have lt: "Suc k < Rows (ExtReps ss)" using N by simp
    from trials_within_epoch [OF start(1) s' lt] have "Epoch s' = Epoch ss" by simp
    moreover have "\<not> StopNow s'"
      using trials_keep_StopNow [OF s'] start(2) by simp
    moreover have "TrainEpoch_loop d ext (Epoch ss) s' = Some (Inr ss')"
      using Suc.IH [of "Suc k" s'] Suc.prems(1) False s' by simp
    ultimately show ?thesis using t by simp
  qed
qed

text \<open>
  Claim C4. For a completed epoch of \<open>N \<ge> 1\<close> trials, the \<^verbatim>\<open>OutSSE\<close> cell of the row
  of the epoch is to be the sum over the trials of the epoch of the outcome error of
  sub-phase 0, divided by \<open>N\<close>. What the code logs is the accumulator \<^verbatim>\<open>OutSumSSE\<close>
  divided by \<open>N\<close>, and the accumulator then holds what it held when the epoch started
  plus the outcome errors of the \<open>N\<close> trials. \<^verbatim>\<open>LogEpoch\<close> clears it, so an epoch that
  follows a completed epoch logs the mean. \<^verbatim>\<open>Init\<close> does not clear it: when a run is
  stopped in the middle of an epoch and \<^verbatim>\<open>Init\<close> restarts it, the next epoch logs the
  mean of its trials plus the sum left over from the interrupted epoch, divided by
  \<open>N\<close>. The epoch ends with the trial counter and the sum at 0 and the epoch counter
  one higher; when no stop is requested, \<^verbatim>\<open>TrainEpoch\<close> with fuel for \<open>N\<close> trials ends in
  the state after these \<open>N\<close> trials. The sums are real numbers here: the rounding of
  the \<^verbatim>\<open>float32\<close> additions and of the division is left out.
\<close>

theorem epoch_log_OutSSE_includes_sum_at_start:
  assumes "Trial ss = 0"
    and "Rows (ExtReps ss) = N" and "1 \<le> N"
    and "trials N ext ss = Inr ss'"
  shows "EpcLog ss' ''OutSSE'' ! nat (Epoch ss) =
           (OutSumSSE ss + (\<Sum>k<N. trial_osse ext ss k)) / real N \<and>
         Epoch ss' = Epoch ss + 1 \<and> Trial ss' = 0 \<and> OutSumSSE ss' = 0 \<and>
         Rows (ExtReps ss') = N \<and>
         (\<not> StopNow ss \<longrightarrow> TrainEpoch N ext ss = Some (Inr ss'))"
proof -
  note log = trials_epoch_log [OF assms]
  then have e: "Epoch ss' = Epoch ss + 1" by simp
  have "TrainEpoch N ext ss = Some (Inr ss')" if "\<not> StopNow ss"
    unfolding TrainEpoch_def
    using TrainEpoch_loop_trials [OF assms(1) that assms(2,4) e, of 0 N ss] assms(3)
    by simp
  with log show ?thesis by simp
qed

text \<open>The epoch of two trials that starts in \<open>sim_restarted\<close>: each of its trials
  measures an outcome error of 1, so the sum over its trials divided by 2 is 1, and its
  row holds 3/2, since the sum starts at the 1 left over from the interrupted epoch.\<close>

theorem epoch_log_OutSSE_includes_sum_at_start_witness:
  "Epoch sim_restarted = 0 \<and> Trial sim_restarted = 0 \<and> OutSumSSE sim_restarted = 1 \<and>
   trial_osse ext_steady sim_restarted 0 = 1 \<and> trial_osse ext_steady sim_restarted 1 = 1 \<and>
   (\<Sum>k<2. trial_osse ext_steady sim_restarted k) / real 2 = 1 \<and>
   (\<exists>ss'. trials 2 ext_steady sim_restarted = Inr ss' \<and>
      TrainEpoch 2 ext_steady sim_restarted = Some (Inr ss') \<and>
      EpcLog ss' ''OutSSE'' ! 0 = 3/2 \<and>
      Epoch ss' = 1 \<and> Trial ss' = 0 \<and> OutSumSSE ss' = 0)"
proof -
  have o: "trial_osse ext_steady sim_restarted 0 = 1" "trial_osse ext_steady sim_restarted 1 = 1"
    by code_simp+
  have "\<not> isl (trials 2 ext_steady sim_restarted)"
    by code_simp
  then obtain ss' where t: "trials 2 ext_steady sim_restarted = Inr ss'"
    by (cases "trials 2 ext_steady sim_restarted") auto
  have s: "Trial sim_restarted = 0" "Rows (ExtReps sim_restarted) = 2"
    "Epoch sim_restarted = 0" "\<not> StopNow sim_restarted" "OutSumSSE sim_restarted = 1"
    by code_simp+
  have sum: "(\<Sum>k<2. trial_osse ext_steady sim_restarted k) = 2"
    using o by (simp add: numeral_2_eq_2)
  from epoch_log_OutSSE_includes_sum_at_start [OF s(1,2) _ t] s sum t o show ?thesis
    by simp
qed

section \<open>The error counters of a trial\<close>

lemma TrialStats_counters:
  assumes "TrialStats ext True ss = Inr (st, ss')"
  shows "AlphaCycle ss = 0 \<Longrightarrow>
           (OutGoalCntErr ss' = OutGoalCntErr ss \<or> OutGoalCntErr ss' = OutGoalCntErr ss + 1) \<and>
           (OutPredCntErr ss' = OutPredCntErr ss \<or> OutPredCntErr ss' = OutPredCntErr ss + 1)"
    and "AlphaCycle ss = 1 \<Longrightarrow>
           OutGoalCntErr ss' = OutGoalCntErr ss \<and> OutPredCntErr ss' = OutPredCntErr ss"
  using assms
  by (cases "oge_loop (Finite (1/2)) (ActM ext (Net ss) Goal) (ActM ext (Net ss) Outcome) (Finite 0)";
      auto simp: TrialStats_def Let_def split_beta split: if_splits)+

lemma ApplyInputs_counters:
  assumes "ApplyInputs t row ss = Inr ss'"
  shows "OutGoalCntErr ss' = OutGoalCntErr ss" "OutPredCntErr ss' = OutPredCntErr ss"
  using arg_cong [OF ApplyInputs_shape [OF assms], of OutGoalCntErr]
    arg_cong [OF ApplyInputs_shape [OF assms], of OutPredCntErr]
  by simp_all

lemma capture_counters:
  assumes "capture ext row ss = Inr (msz, osz, ss')"
  shows "OutGoalCntErr ss' = OutGoalCntErr ss" "OutPredCntErr ss' = OutPredCntErr ss"
  using arg_cong [OF capture_shape [OF assms], of OutGoalCntErr]
    arg_cong [OF capture_shape [OF assms], of OutPredCntErr]
  by simp_all

lemma AlphaCyc_counters [simp]:
  "OutGoalCntErr (AlphaCyc b ss) = OutGoalCntErr ss"
  "OutPredCntErr (AlphaCyc b ss) = OutPredCntErr ss"
  by (simp_all add: AlphaCyc_def Let_def)

lemma TrainTrial_counters:
  assumes "TrainTrial ext ss = Inr ss'" and "Trial ss + 1 < int (Rows (ExtReps ss))"
  shows "(OutGoalCntErr ss' = OutGoalCntErr ss \<or> OutGoalCntErr ss' = OutGoalCntErr ss + 1) \<and>
         (OutPredCntErr ss' = OutPredCntErr ss \<or> OutPredCntErr ss' = OutPredCntErr ss + 1)"
proof -
  from assms(1) obtain row s1 msz osz s3 st s4 s5 where
    a0: "ApplyInputs (ExtReps ss) row (ss\<lparr>AlphaCycle := 0\<rparr>) = Inr s1" and
    c: "capture ext row (AlphaCyc True s1) = Inr (msz, osz, s3)" and
    t: "TrialStats ext True s3 = Inr (st, s4)" and
    a1: "ApplyInputs (ExtReps s4) row (s4\<lparr>AlphaCycle := 1\<rparr>) = Inr s5" and
    f: "TrainTrial_finish ext (AlphaCyc True s5) = Inr ss'"
    by (rule TrainTrial_InrE)
  have ac3: "AlphaCycle s3 = 0"
    using capture_AlphaCycle [OF c] ApplyInputs_AlphaCycle [OF a0] by simp
  have c3: "OutGoalCntErr s3 = OutGoalCntErr ss" "OutPredCntErr s3 = OutPredCntErr ss"
    using capture_counters [OF c] ApplyInputs_counters [OF a0] by simp_all
  have tr4: "Trial s4 = Trial ss"
    using TrialStats_Trial [OF t] capture_core(2) [OF c] ApplyInputs_core(2) [OF a0]
    by simp
  have x4: "Rows (ExtReps s4) = Rows (ExtReps ss)"
    using TrialStats_ExtReps [OF t] capture_table(1) [OF c] ApplyInputs_ExtReps [OF a0]
    by simp
  let ?s5 = "AlphaCyc True s5"
  have ac5: "AlphaCycle ?s5 = 1"
    using ApplyInputs_AlphaCycle [OF a1] by simp
  have c5: "OutGoalCntErr ?s5 = OutGoalCntErr s4" "OutPredCntErr ?s5 = OutPredCntErr s4"
    using ApplyInputs_counters [OF a1] by simp_all
  from TrainTrial_finish_stats [OF f] obtain st1 s6 where
    t1: "TrialStats ext True ?s5 = Inr (st1, s6)" by blast
  have c6: "OutGoalCntErr s6 = OutGoalCntErr s4" "OutPredCntErr s6 = OutPredCntErr s4"
    using TrialStats_counters(2) [OF t1 ac5] c5 by simp_all
  have "Trial s6 = Trial ss" "Rows (ExtReps s6) = Rows (ExtReps ss)"
    using TrialStats_Trial [OF t1] ApplyInputs_core(2) [OF a1] tr4
      TrialStats_ExtReps [OF t1] ApplyInputs_ExtReps [OF a1] x4 by simp_all
  with assms(2) have "Trial s6 + 1 < int (Rows (ExtReps s6))" by simp
  from TrainTrial_finish_inside [OF f t1 this]
  have "OutGoalCntErr ss' = OutGoalCntErr s4" "OutPredCntErr ss' = OutPredCntErr s4"
    using c6 by simp_all
  with TrialStats_counters(1) [OF t ac3] c3 show ?thesis
    by simp
qed

text \<open>
  Claim C5. In the statistics of sub-phase 0 with accumulation, the goal-vs-outcome
  mismatch counter is to go up by exactly 1 when at least one unit of the goal layer
  differs from the unit of the outcome layer at the same place by more than the
  tolerance 0.5, and by 0 otherwise; no counter goes up more than once in a trial.
  The test of the code is \<^verbatim>\<open>math32.Abs(d) < tol\<close> on the \<^verbatim>\<open>float32\<close> difference
  \<^verbatim>\<open>d := ng.ActM - no.ActM\<close>: a unit is passed over when the rounded difference is
  below 0.5 in magnitude, and counts when it is 0.5 or more (or NaN). So a difference of
  exactly 0.5 counts, and so does a difference that only rounds to 0.5. The
  outcome-prediction counter goes up by 1 when the outcome error \<^verbatim>\<open>osse\<close> of the trial
  is not 0. The statistics of sub-phase 1 change neither counter, and a trial makes one
  pass of each kind: over a whole trial that does not end its epoch each counter goes
  up by 0 or by 1 (at the end of an epoch \<^verbatim>\<open>LogEpoch\<close> sets both to 0). The goal layer
  is taken to have no more units than the outcome layer, since otherwise the
  statistics panic.
\<close>

theorem TrialStats_error_counters:
  "(AlphaCycle ss = 0 \<and>
    length (ActM ext (Net ss) Goal) \<le> length (ActM ext (Net ss) Outcome) \<longrightarrow>
      (\<exists>st ss'. TrialStats ext True ss = Inr (st, ss') \<and>
         OutGoalCntErr ss' = OutGoalCntErr ss +
           (if \<exists>i<length (ActM ext (Net ss) Goal).
                 \<not> f32_less
                     (f32_abs (f32_sub (ActM ext (Net ss) Goal ! i)
                                       (ActM ext (Net ss) Outcome ! i)))
                     (Finite (1/2))
            then 1 else 0) \<and>
         osse st = fst (MSE ext (Net ss) Outcome (1/2)) \<and>
         OutPredCntErr ss' = OutPredCntErr ss + (if osse st \<noteq> 0 then 1 else 0))) \<and>
   (AlphaCycle ss = 1 \<longrightarrow>
      (\<exists>st ss'. TrialStats ext True ss = Inr (st, ss') \<and>
         OutGoalCntErr ss' = OutGoalCntErr ss \<and> OutPredCntErr ss' = OutPredCntErr ss)) \<and>
   (TrainTrial ext ss = Inr ss'' \<and> Trial ss + 1 < int (Rows (ExtReps ss)) \<longrightarrow>
      (OutGoalCntErr ss'' = OutGoalCntErr ss \<or> OutGoalCntErr ss'' = OutGoalCntErr ss + 1) \<and>
      (OutPredCntErr ss'' = OutPredCntErr ss \<or> OutPredCntErr ss'' = OutPredCntErr ss + 1))"
proof (intro conjI impI)
  let ?gs = "ActM ext (Net ss) Goal" and ?os = "ActM ext (Net ss) Outcome"
  assume a: "AlphaCycle ss = 0 \<and> length ?gs \<le> length ?os"
  then have "length ?gs \<le> length ?os" by simp
  from oge_loop_counts [OF this] obtain r where
    r: "oge_loop (Finite (1/2)) ?gs ?os (Finite 0) = Inr r"
       "f32_neq r (Finite 0) \<longleftrightarrow>
          (\<exists>i<length ?gs. \<not> f32_less (f32_abs (f32_sub (?gs ! i) (?os ! i))) (Finite (1/2)))"
    by blast
  from a r(1) obtain st ss' where t: "TrialStats ext True ss = Inr (st, ss')"
    by (simp add: TrialStats_def Let_def split_beta)
  from t a r(1) have
    "OutGoalCntErr ss' = OutGoalCntErr ss + (if f32_neq r (Finite 0) then 1 else 0)"
    "osse st = fst (MSE ext (Net ss) Outcome (1/2))"
    "OutPredCntErr ss' = OutPredCntErr ss + (if osse st \<noteq> 0 then 1 else 0)"
    by (auto simp: TrialStats_def Let_def split_beta)
  with t show "\<exists>st ss'. TrialStats ext True ss = Inr (st, ss') \<and>
         OutGoalCntErr ss' = OutGoalCntErr ss +
           (if \<exists>i<length ?gs.
                 \<not> f32_less (f32_abs (f32_sub (?gs ! i) (?os ! i))) (Finite (1/2))
            then 1 else 0) \<and>
         osse st = fst (MSE ext (Net ss) Outcome (1/2)) \<and>
         OutPredCntErr ss' = OutPredCntErr ss + (if osse st \<noteq> 0 then 1 else 0)"
    unfolding r(2) by blast
next
  assume "AlphaCycle ss = 1"
  then show "\<exists>st ss'. TrialStats ext True ss = Inr (st, ss') \<and>
         OutGoalCntErr ss' = OutGoalCntErr ss \<and> OutPredCntErr ss' = OutPredCntErr ss"
    by (simp add: TrialStats_def Let_def split_beta)
next
  assume "TrainTrial ext ss = Inr ss'' \<and> Trial ss + 1 < int (Rows (ExtReps ss))"
  then have "(OutGoalCntErr ss'' = OutGoalCntErr ss \<or> OutGoalCntErr ss'' = OutGoalCntErr ss + 1) \<and>
      (OutPredCntErr ss'' = OutPredCntErr ss \<or> OutPredCntErr ss'' = OutPredCntErr ss + 1)"
    using TrainTrial_counters [of ext ss ss''] by blast
  then show "OutGoalCntErr ss'' = OutGoalCntErr ss \<or> OutGoalCntErr ss'' = OutGoalCntErr ss + 1"
    "OutPredCntErr ss'' = OutPredCntErr ss \<or> OutPredCntErr ss'' = OutPredCntErr ss + 1"
    by simp_all
qed

text \<open>On \<open>ext_measured\<close> the first units are 0.7 and 0.2: as \<^verbatim>\<open>float32\<close> values they
  differ by less than 0.5, and their difference rounds to 0.5. Both units count, and
  each counter goes up by one. In sub-phase 1 neither counter moves. Over the first
  of the two trials of an epoch on \<open>two_rows\<close> both counters go from 0 to 1.\<close>

theorem TrialStats_error_counters_witness:
  "fround (7/10) = Finite (11744051 / 2 ^ 24) \<and> fround (1/5) = Finite (13421773 / 2 ^ 26) \<and>
   \<bar>11744051 / 2 ^ 24 - 13421773 / 2 ^ 26\<bar> < (1/2 :: real) \<and>
   f32_sub (fround (7/10)) (fround (1/5)) = Finite (1/2) \<and>
   (\<exists>st ss'. TrialStats ext_measured True (sim_start one_row) = Inr (st, ss') \<and>
      OutGoalCntErr ss' = 1 \<and> OutPredCntErr ss' = 1) \<and>
   (\<exists>st ss'. TrialStats ext_measured True ((sim_start one_row)\<lparr>AlphaCycle := 1\<rparr>) =
        Inr (st, ss') \<and>
      OutGoalCntErr ss' = 0 \<and> OutPredCntErr ss' = 0) \<and>
   (\<exists>ss''. TrainTrial ext_measured sim_two = Inr ss'' \<and> Trial ss'' = 1 \<and>
      OutGoalCntErr ss'' \<in> {0, 1} \<and> OutPredCntErr ss'' \<in> {0, 1}) \<and>
   map_sum id (\<lambda>s. (OutGoalCntErr s, OutPredCntErr s)) (TrainTrial ext_measured sim_two) =
     Inr (1, 1)"
proof -
  have f: "fround (7/10) = Finite (11744051 / 2 ^ 24)"
    "fround (1/5) = Finite (13421773 / 2 ^ 26)"
    "f32_sub (fround (7/10)) (fround (1/5)) = Finite (1/2)"
    by code_simp+
  have g: "ActM ext_measured net Goal = [fround (7/10), fround 0]"
    "ActM ext_measured net Outcome = [fround (1/5), fround 1]"
    "MSE ext_measured net l tol = (3, 3/2)" for net l tol
    by (simp_all add: ext_measured_def ext_units_def)
  have e: "\<exists>i<length (ActM ext_measured (Net (sim_start one_row)) Goal).
      \<not> f32_less
          (f32_abs (f32_sub (ActM ext_measured (Net (sim_start one_row)) Goal ! i)
                            (ActM ext_measured (Net (sim_start one_row)) Outcome ! i)))
          (Finite (1/2))"
    unfolding g by (intro exI [of _ 0]) (simp add: f(3))
  have s: "AlphaCycle (sim_start one_row) = 0" "OutGoalCntErr (sim_start one_row) = 0"
    "OutPredCntErr (sim_start one_row) = 0"
    by (simp_all add: sim_start_def)
  have l: "length (ActM ext_measured (Net (sim_start one_row)) Goal) \<le>
      length (ActM ext_measured (Net (sim_start one_row)) Outcome)"
    unfolding g by simp
  from TrialStats_error_counters [of "sim_start one_row" ext_measured] s(1) l
  obtain st ss' where t: "TrialStats ext_measured True (sim_start one_row) = Inr (st, ss')"
    "OutGoalCntErr ss' = OutGoalCntErr (sim_start one_row) +
       (if \<exists>i<length (ActM ext_measured (Net (sim_start one_row)) Goal).
           \<not> f32_less
             (f32_abs (f32_sub (ActM ext_measured (Net (sim_start one_row)) Goal ! i)
                               (ActM ext_measured (Net (sim_start one_row)) Outcome ! i)))
             (Finite (1/2))
        then 1 else 0)"
    "osse st = fst (MSE ext_measured (Net (sim_start one_row)) Outcome (1/2))"
    "OutPredCntErr ss' = OutPredCntErr (sim_start one_row) + (if osse st \<noteq> 0 then 1 else 0)"
    by blast
  from t(2) e s(2) have "OutGoalCntErr ss' = 1"
    by simp
  moreover from t(3,4) s(3) have "OutPredCntErr ss' = 1"
    unfolding g by simp
  ultimately have 0: "\<exists>st ss'. TrialStats ext_measured True (sim_start one_row) = Inr (st, ss') \<and>
      OutGoalCntErr ss' = 1 \<and> OutPredCntErr ss' = 1"
    using t(1) by blast
  from TrialStats_error_counters [of "(sim_start one_row)\<lparr>AlphaCycle := 1\<rparr>" ext_measured] s
  have 1: "\<exists>st ss'. TrialStats ext_measured True ((sim_start one_row)\<lparr>AlphaCycle := 1\<rparr>) =
        Inr (st, ss') \<and>
      OutGoalCntErr ss' = 0 \<and> OutPredCntErr ss' = 0"
    by simp
  have "\<bar>11744051 / 2 ^ 24 - 13421773 / 2 ^ 26\<bar> < (1/2 :: real)"
    by simp
  have "\<not> isl (TrainTrial ext_measured sim_two)"
    by code_simp
  then obtain ss'' where tt: "TrainTrial ext_measured sim_two = Inr ss''"
    by (cases "TrainTrial ext_measured sim_two") auto
  have two: "Trial sim_two = 0" "Rows (ExtReps sim_two) = 2" "OutGoalCntErr sim_two = 0"
    "OutPredCntErr sim_two = 0"
    by (simp_all add: sim_two_def sim_start_def two_rows_def)
  have "map_sum id Trial (TrainTrial ext_measured sim_two) = Inr 1"
    by code_simp
  with tt have tr: "Trial ss'' = 1" by simp
  from TrialStats_error_counters [of sim_two ext_measured ss''] tt two
  have 2: "OutGoalCntErr ss'' \<in> {0, 1} \<and> OutPredCntErr ss'' \<in> {0, 1}"
    by auto
  have 3: "map_sum id (\<lambda>s. (OutGoalCntErr s, OutPredCntErr s))
      (TrainTrial ext_measured sim_two) = Inr (1, 1)"
    by code_simp
  from f 0 1 tt tr 2 3
    \<open>\<bar>11744051 / 2 ^ 24 - 13421773 / 2 ^ 26\<bar> < (1/2 :: real)\<close>
  show ?thesis
    by blast
qed


text \<open>As the claim is worded, a unit counts only when its difference exceeds 0.5.
  With one unit at 0.5 in the goal layer and 0 in the outcome layer, both of them
  \<^verbatim>\<open>float32\<close> values, the difference is exactly 0.5 and does not exceed 0.5, and the
  counter still goes from 0 to 1.\<close>

theorem TrialStats_tolerance_boundary:
  "OutGoalCntErr (sim_start one_row) = 0 \<and>
   ActM (ext_units [1/2] [0]) (Net (sim_start one_row)) Goal = [Finite (1/2)] \<and>
   ActM (ext_units [1/2] [0]) (Net (sim_start one_row)) Outcome = [Finite 0] \<and>
   f32_sub (Finite (1/2)) (Finite 0) = Finite (1/2) \<and>
   \<not> 1/2 < \<bar>(1/2 :: real) - 0\<bar> \<and>
   map_sum id (OutGoalCntErr \<circ> snd)
     (TrialStats (ext_units [1/2] [0]) True (sim_start one_row)) = Inr 1"
  by code_simp

section \<open>Two runs from the same seed\<close>

text \<open>Two runs on the same table, with the same collaborators, the same seed and the
  same \<^verbatim>\<open>MaxEpcs\<close>. \<open>run_fresh\<close>: \<^verbatim>\<open>Init\<close> and \<^verbatim>\<open>Train\<close> on a new \<^verbatim>\<open>Sim\<close>.
  \<open>run_after_stop\<close>: \<^verbatim>\<open>Init\<close>, then a training run that a stop request ends after its
  first trial, in the middle of the first epoch, then \<^verbatim>\<open>Init\<close> and \<^verbatim>\<open>Train\<close> again.
  \<open>logged name r\<close> is the column \<open>name\<close> of the epoch log at the end of a run, and
  \<open>seed_and_max\<close> the seed and the \<^verbatim>\<open>MaxEpcs\<close> the run had.\<close>

definition run_fresh :: "(error + Sim) option" where
  "run_fresh = Train 4 ext_steady (Init ext_steady (sim_start two_rows))"

definition run_after_stop :: "(error + Sim) option" where
  "run_after_stop =
     (case Train_loop 4 ext_steady (Stop (Init ext_steady (sim_start two_rows))) of
        Some (Inr ss) \<Rightarrow> Train 4 ext_steady (Init ext_steady ss)
      | r \<Rightarrow> r)"

definition logged :: "string \<Rightarrow> (error + Sim) option \<Rightarrow> real list option" where
  "logged name r = (case r of Some (Inr ss) \<Rightarrow> Some (EpcLog ss name) | _ \<Rightarrow> None)"

definition seed_and_max :: "(error + Sim) option \<Rightarrow> (int \<times> int) option" where
  "seed_and_max r = (case r of Some (Inr ss) \<Rightarrow> Some (RndSeed ss, MaxEpcs ss) | _ \<Rightarrow> None)"

lemma Init_keeps_sums:
  "OutSumSSE (Init ext ss) = OutSumSSE ss \<and> OutSumAvgSSE (Init ext ss) = OutSumAvgSSE ss \<and>
   OutSumCosDiff (Init ext ss) = OutSumCosDiff ss \<and> MotSumSSE (Init ext ss) = MotSumSSE ss \<and>
   MotSumAvgSSE (Init ext ss) = MotSumAvgSSE ss \<and>
   MotSumCosDiff (Init ext ss) = MotSumCosDiff ss \<and>
   OutGoalCntErr (Init ext ss) = OutGoalCntErr ss \<and>
   OutPredCntErr (Init ext ss) = OutPredCntErr ss"
  by (simp add: Init_def Let_def split_beta)

text \<open>
  Claim C8. Two runs started with the same seed and the same \<^verbatim>\<open>MaxEpcs\<close> are to give
  the same epoch log. \<^verbatim>\<open>Init\<close>, which "restarts the run, and initializes everything",
  seeds the generator and resets the counters and the log, but leaves the sums and
  error counters of the epoch as they are. After a run stopped in the middle of an
  epoch, the first row of the next run carries the sums of the interrupted epoch: the
  two runs log different rows, here a mean error of 1 against 3/2, and a rate of
  prediction errors of 1 against 3/2.
\<close>

theorem rerun_after_stop_logs_differently:
  "seed_and_max run_fresh = Some (1, 1) \<and> seed_and_max run_after_stop = Some (1, 1) \<and>
   logged ''Epoch'' run_fresh = Some [0] \<and> logged ''Epoch'' run_after_stop = Some [0] \<and>
   logged ''OutSSE'' run_fresh = Some [1] \<and>
   logged ''OutSSE'' run_after_stop = Some [3/2] \<and>
   logged ''OutPredPctErr'' run_fresh = Some [1] \<and>
   logged ''OutPredPctErr'' run_after_stop = Some [3/2]"
  by code_simp

end
